theory Spec2Isabelle
  imports Main "HOL-Library.Word" "HOL-Library.AList"
begin

section \<open>Data model\<close>

text \<open>
  A point in time is a number of nanoseconds (Go's \<^verbatim>\<open>time.Time\<close>, read on the wall
  clock); a nullable timestamp (\<^verbatim>\<open>*metav1.Time\<close>) is an option.
\<close>

type_synonym Time = int

text \<open>
  \<^verbatim>\<open>SessionStatus\<close> is a Go string type with eight declared constants
  (applicationsession\_types.go). Any other string is a value of the type too:
  \<open>SessionStatusOther\<close> stands for those.
\<close>

datatype SessionStatus =
    SessionStatusUnspecified
  | SessionStatusPending
  | SessionStatusStarting
  | SessionStatusAvailable
  | SessionStatusInUse
  | SessionStatusClosing
  | SessionStatusClosed
  | SessionStatusTimeout
  | SessionStatusOther string

record AccessEndPoint =
  Protocol :: string
  IPAddress :: string
  Port :: "32 word"

record ApplicationSessionSpec =
  ApplicationName :: string
  SessionData :: string
  KillInstanceWhenSessionClosed :: bool
  CloseGracePeriodSeconds :: "32 word option"
  OpenTimeoutSeconds :: "32 word"

text \<open>
  \<open>PodReference\<close> is read and written by application\_session.go
  (\<^verbatim>\<open>session.Status.PodReference\<close>, a nullable reference holding a pod name); a client
  session reference is its name.
\<close>

record ApplicationSessionStatus =
  AccessEndPoints :: "AccessEndPoint list"
  SessionStatus :: SessionStatus
  ClientSessions :: "string list"
  AvailableTime :: "Time option"
  CloseTime :: "Time option"
  AvailableTimeMicro :: "64 word"
  PodReference :: "string option"

record ApplicationSession =
  UID :: string
  sessionName :: string
  CreationTimestamp :: Time
  DeletionTimestamp :: "Time option"
  Finalizers :: "string list"
  Spec :: ApplicationSessionSpec
  Status :: ApplicationSessionStatus

text \<open>The part of a Kubernetes pod that the session code reads.\<close>

record ContainerPort =
  portProtocol :: string
  HostIP :: string
  HostPort :: "32 word"

record Container =
  Ports :: "ContainerPort list"

record Pod =
  podKey :: string
  Containers :: "Container list"
  podPhase :: string
  podDeletionTimestamp :: "Time option"

section \<open>Collaborators and manager state\<close>

text \<open>
  Every call that leaves the application manager is appended to a log. What a collaborator
  answers is a function of the calls made so far and of the arguments, so a collaborator may
  answer the same question differently at different times. An error is its message.
  \<open>currentTime env n\<close> is what the clock shows when it is read for the \<open>n\<close>-th time.

  The session records below leave out metadata that this code does not read, and a list
  does not tell a nil slice from an empty one. \<^verbatim>\<open>reflect.DeepEqual\<close> sees both: for the
  session objects at two addresses, \<open>sameUnmodelled\<close> says whether what the records leave
  out is deeply equal, and \<open>sameUnmodelledStatus\<close> says so for their status.
\<close>

datatype Call =
    FindPod string
  | OpenSession Pod ApplicationSession
  | CloseSession Pod ApplicationSession
  | UpdateSessionStatus ApplicationSession ApplicationSessionStatus
  | TerminatePod Pod

record Collaborators =
  findPod :: "Call list \<Rightarrow> string \<Rightarrow> Pod option"
  openSession :: "Call list \<Rightarrow> Pod \<Rightarrow> ApplicationSession \<Rightarrow> string option"
  closeSession :: "Call list \<Rightarrow> Pod \<Rightarrow> ApplicationSession \<Rightarrow> string option"
  updateSessionStatus ::
    "Call list \<Rightarrow> ApplicationSession \<Rightarrow> ApplicationSessionStatus \<Rightarrow> string option"
  currentTime :: "nat \<Rightarrow> Time"
  sameUnmodelled :: "nat \<Rightarrow> nat \<Rightarrow> bool"
  sameUnmodelledStatus :: "nat \<Rightarrow> nat \<Rightarrow> bool"

text \<open>
  The pool keeps pointers: \<^verbatim>\<open>sessions map[string]*ApplicationSession\<close> and pods that
  carry a mutable set of session ids. Sessions and pool pods therefore live in two stores
  indexed by address, and the pool holds addresses. The session map is an association list,
  whose order is the order in which \<^verbatim>\<open>sessionList\<close> happens to enumerate the Go map.
  \<open>queue\<close> lists the keys handed to \<^verbatim>\<open>enqueueApplication\<close>, \<open>errorLog\<close> the errors
  written with \<^verbatim>\<open>klog.ErrorS\<close>, \<open>persists\<close> the status updates handed to a goroutine
  (the address of the old copy and the new status), \<open>timeReads\<close> how often the clock was
  read.
\<close>

record ApplicationPod =
  podName :: string
  podSessions :: "string set"

record ApplicationPool =
  sessions :: "(string \<times> nat) list"
  pods :: "string \<rightharpoonup> nat"

record ApplicationManager =
  sessionHeap :: "nat \<Rightarrow> ApplicationSession"
  podHeap :: "nat \<Rightarrow> ApplicationPod"
  podNext :: nat
  applicationPools :: "string \<rightharpoonup> ApplicationPool"
  queue :: "string list"
  calls :: "Call list"
  persists :: "(nat \<times> ApplicationSessionStatus) list"
  errorLog :: "string list"
  timeReads :: nat

section \<open>Session predicates\<close>

text \<open>
  Modelled from the spec: package \<^verbatim>\<open>util\<close> is not among the sources. Section 4.1 names
  the pending states (Unspecified, Pending), section 4.8 the open states (Starting,
  Available, InUse), section 3 the terminal states (Closed, Timeout).
\<close>

definition SessionIsPending :: "ApplicationSession \<Rightarrow> bool" where
  "SessionIsPending session =
     (SessionStatus (Status session) = SessionStatusUnspecified
      \<or> SessionStatus (Status session) = SessionStatusPending)"

definition SessionIsOpen :: "ApplicationSession \<Rightarrow> bool" where
  "SessionIsOpen session =
     (SessionStatus (Status session) = SessionStatusStarting
      \<or> SessionStatus (Status session) = SessionStatusAvailable
      \<or> SessionStatus (Status session) = SessionStatusInUse)"

definition SessionInTerminalState :: "ApplicationSession \<Rightarrow> bool" where
  "SessionInTerminalState session =
     (SessionStatus (Status session) = SessionStatusClosed
      \<or> SessionStatus (Status session) = SessionStatusTimeout)"

section \<open>Status changes sent to the session manager\<close>

text \<open>
  \<^verbatim>\<open>changeSessionStatus\<close>: both arguments of \<^verbatim>\<open>UpdateSessionStatus\<close> are deep copies, so the
  session behind \<open>v\<close> keeps its value.
\<close>

definition changeSessionStatus ::
  "Collaborators \<Rightarrow> nat \<Rightarrow> SessionStatus \<Rightarrow> ApplicationManager
     \<Rightarrow> string option \<times> ApplicationManager" where
  "changeSessionStatus env v status appc =
     (let session = sessionHeap appc v;
          newStatus = (Status (sessionHeap appc v))\<lparr>SessionStatus := status\<rparr>;
          newStatus' =
            (if status = SessionStatusClosed \<or> status = SessionStatusTimeout
             then newStatus\<lparr>ClientSessions := []\<rparr> else newStatus)
      in (updateSessionStatus env (calls appc) session newStatus',
          appc\<lparr>calls := calls appc @ [UpdateSessionStatus session newStatus']\<rparr>))"

section \<open>Binding a session to a pod\<close>

definition endPointOf :: "ContainerPort \<Rightarrow> AccessEndPoint" where
  "endPointOf port =
     \<lparr>Protocol = portProtocol port, IPAddress = HostIP port, Port = HostPort port\<rparr>"

text \<open>
  The two nested loops of \<^verbatim>\<open>bindSessionToPod\<close>. Each iteration assigns
  \<^verbatim>\<open>append(session.Status.AccessEndPoints, ...)\<close> to \<^verbatim>\<open>newStatus.AccessEndPoints\<close>: the
  first argument of \<^verbatim>\<open>append\<close> is the session's own list \<open>prior\<close>, not the list built so
  far.
\<close>

definition bindEndPoints ::
  "AccessEndPoint list \<Rightarrow> AccessEndPoint list \<Rightarrow> Container list \<Rightarrow> AccessEndPoint list" where
  "bindEndPoints prior start conts =
     foldl (\<lambda>acc cont. foldl (\<lambda>acc' port. prior @ [endPointOf port]) acc (Ports cont))
       start conts"

definition bindSessionToPod ::
  "Collaborators \<Rightarrow> string \<Rightarrow> Pod \<Rightarrow> nat \<Rightarrow> ApplicationManager
     \<Rightarrow> string option \<times> ApplicationManager" where
  "bindSessionToPod env applicationKey pod a appc =
     (let session = sessionHeap appc a;
          newStatus = (Status session)\<lparr>SessionStatus := SessionStatusStarting\<rparr>;
          newStatus' = newStatus\<lparr>AccessEndPoints :=
            bindEndPoints (AccessEndPoints (Status session)) (AccessEndPoints newStatus)
              (Containers pod)\<rparr>;
          newStatus'' = newStatus'\<lparr>PodReference := Some (podKey pod)\<rparr>;
          oldStatus = Status session;
          session' = session\<lparr>Status := newStatus''\<rparr>;
          appc1 = appc\<lparr>sessionHeap := (sessionHeap appc)(a := session')\<rparr>;
          err = openSession env (calls appc1) pod session';
          appc2 = appc1\<lparr>calls := calls appc1 @ [OpenSession pod session']\<rparr>
      in case err of
           Some e \<Rightarrow>
             (Some e,
              appc2\<lparr>sessionHeap := (sessionHeap appc2)(a := session'\<lparr>Status := oldStatus\<rparr>)\<rparr>)
         | None \<Rightarrow> (None, appc2))"

section \<open>Closing a session\<close>

definition closeApplicationSession ::
  "Collaborators \<Rightarrow> nat \<Rightarrow> ApplicationManager \<Rightarrow> string option \<times> ApplicationManager" where
  "closeApplicationSession env a appc =
     (let session = sessionHeap appc a in
      if SessionIsOpen session then
        (case PodReference (Status session) of
           Some name \<Rightarrow>
             (let pod = findPod env (calls appc) name;
                  appc1 = appc\<lparr>calls := calls appc @ [FindPod name]\<rparr>
              in case pod of
                   Some p \<Rightarrow>
                     (let session' = session\<lparr>Status :=
                            (Status session)\<lparr>SessionStatus := SessionStatusClosing\<rparr>\<rparr>;
                          appc2 = appc1\<lparr>sessionHeap := (sessionHeap appc1)(a := session')\<rparr>
                      in (closeSession env (calls appc2) p session',
                          appc2\<lparr>calls := calls appc2 @ [CloseSession p session']\<rparr>))
                 | None \<Rightarrow> (None, snd (changeSessionStatus env a SessionStatusClosed appc1)))
         | None \<Rightarrow> (None, appc))
      else (None, appc))"

section \<open>Grouping the sessions of a pool\<close>

text \<open>
  \<^verbatim>\<open>time.Duration\<close> is a signed 64-bit count of nanoseconds; \<^verbatim>\<open>time.Second\<close> is
  \<open>10^9\<close>. \<^verbatim>\<open>Time.Add\<close> reads the duration as a signed number.
\<close>

definition Second :: "64 word" where
  "Second = 1000000000"

definition DefaultSessionPendingTimeoutDuration :: "64 word" where
  "DefaultSessionPendingTimeoutDuration = 5 * Second"

definition DefaultSessionOpenTimeoutDuration :: "64 word" where
  "DefaultSessionOpenTimeoutDuration = 10 * Second"

definition timeAdd :: "Time \<Rightarrow> 64 word \<Rightarrow> Time" where
  "timeAdd t d = t + sint d"

definition timeoutDuration :: "ApplicationSession \<Rightarrow> 64 word" where
  "timeoutDuration v =
     (if 0 < OpenTimeoutSeconds (Spec v)
      then ucast (OpenTimeoutSeconds (Spec v)) * Second
      else DefaultSessionOpenTimeoutDuration)"

definition pendingTimeoutTimeStamp :: "Time \<Rightarrow> ApplicationSession \<Rightarrow> Time" where
  "pendingTimeoutTimeStamp now v = timeAdd now (- 1 * timeoutDuration v)"

definition getSession :: "ApplicationPool \<Rightarrow> string \<Rightarrow> nat option" where
  "getSession pool key = map_of (sessions pool) key"

definition addSession :: "string \<Rightarrow> nat \<Rightarrow> ApplicationPool \<Rightarrow> ApplicationPool" where
  "addSession key session pool = pool\<lparr>sessions := AList.update key session (sessions pool)\<rparr>"

definition deleteSession :: "string \<Rightarrow> ApplicationPool \<Rightarrow> ApplicationPool" where
  "deleteSession key pool = pool\<lparr>sessions := AList.delete key (sessions pool)\<rparr>"

definition sessionList :: "ApplicationPool \<Rightarrow> nat list" where
  "sessionList pool = map snd (sessions pool)"

record SessionGroups =
  pendingSessions :: "nat list"
  deletingSessions :: "nat list"
  closingSessions :: "nat list"
  timeoutSessions :: "nat list"
  activeSessions :: "nat list"

text \<open>
  The body of the loop of \<^verbatim>\<open>groupSessionsByState\<close> for the session at address \<open>a\<close>;
  \<open>now\<close> is what \<^verbatim>\<open>time.Now()\<close> returns in that iteration.
\<close>

definition groupSession ::
  "Time \<Rightarrow> ApplicationSession \<Rightarrow> nat \<Rightarrow> SessionGroups \<Rightarrow> SessionGroups" where
  "groupSession now v a g =
     (if SessionStatus (Status v) = SessionStatusClosing
      then g\<lparr>closingSessions := closingSessions g @ [a]\<rparr>
      else if DeletionTimestamp v \<noteq> None
      then g\<lparr>deletingSessions := deletingSessions g @ [a]\<rparr>
      else if SessionIsPending v
      then (if CreationTimestamp v < pendingTimeoutTimeStamp now v
            then g\<lparr>timeoutSessions := timeoutSessions g @ [a]\<rparr>
            else g\<lparr>pendingSessions := pendingSessions g @ [a]\<rparr>)
      else if SessionStatus (Status v) = SessionStatusStarting
      then (if CreationTimestamp v < pendingTimeoutTimeStamp now v
            then g\<lparr>timeoutSessions := timeoutSessions g @ [a]\<rparr>
            else g\<lparr>activeSessions := activeSessions g @ [a]\<rparr>)
      else if SessionIsOpen v
      then g\<lparr>activeSessions := activeSessions g @ [a]\<rparr>
      else g)"

text \<open>
  \<open>clock a\<close> is the reading of \<^verbatim>\<open>time.Now()\<close> in the iteration that visits the session at
  address \<open>a\<close>; \<open>heap\<close> holds the sessions.
\<close>

definition groupSessionsByState ::
  "(nat \<Rightarrow> Time) \<Rightarrow> (nat \<Rightarrow> ApplicationSession) \<Rightarrow> ApplicationPool \<Rightarrow> SessionGroups" where
  "groupSessionsByState clock heap pool =
     foldl (\<lambda>g a. groupSession (clock a) (heap a) a g)
       \<lparr>pendingSessions = [], deletingSessions = [], closingSessions = [],
        timeoutSessions = [], activeSessions = []\<rparr>
       (sessionList pool)"

section \<open>Application keys\<close>

text \<open>
  \<^verbatim>\<open>cache.SplitMetaNamespaceKey\<close> of client-go splits the key at every \<^verbatim>\<open>/\<close>
  (\<^verbatim>\<open>strings.Split\<close>) and accepts one part (a name) or two (a namespace and a name).
  Its error shows the key with \<^verbatim>\<open>%q\<close>, in double quotes; \<open>goQuote\<close> writes the quotes
  and escapes a double quote or a backslash inside the key, and leaves the escapes of
  unprintable characters out.
\<close>

fun goEscape :: "string \<Rightarrow> string" where
  "goEscape [] = []"
| "goEscape (c # cs) =
     (if c = CHR 0x22 \<or> c = CHR 0x5C then CHR 0x5C # c # goEscape cs else c # goEscape cs)"

definition goQuote :: "string \<Rightarrow> string" where
  "goQuote key = CHR 0x22 # goEscape key @ [CHR 0x22]"

fun splitSlash :: "string \<Rightarrow> string list" where
  "splitSlash [] = ['''']"
| "splitSlash (c # cs) =
     (if c = CHR ''/'' then [] # splitSlash cs
      else (case splitSlash cs of [] \<Rightarrow> [c # []] | p # ps \<Rightarrow> (c # p) # ps))"

definition SplitMetaNamespaceKey :: "string \<Rightarrow> string \<times> string \<times> string option" where
  "SplitMetaNamespaceKey key =
     (case splitSlash key of
        [name] \<Rightarrow> ([], name, None)
      | [namespace, name] \<Rightarrow> (namespace, name, None)
      | _ \<Rightarrow> ([], [], Some (''unexpected key format: '' @ goQuote key)))"

definition getSessionApplicationKey :: "ApplicationSession \<Rightarrow> string \<times> string option" where
  "getSessionApplicationKey session =
     (let applicationLabel = ApplicationName (Spec session) in
      case snd (snd (SplitMetaNamespaceKey applicationLabel)) of
        None \<Rightarrow> (applicationLabel, None)
      | Some _ \<Rightarrow>
          ([], Some (''Session application label:'' @ applicationLabel
                     @ '' is not valid meta namespace key'')))"

section \<open>The registry of pools\<close>

text \<open>
  Modelled from the spec: the registry and the pod side of the pool are not among the
  sources. Section 4.2: \<^verbatim>\<open>getPool\<close> returns the pool or nil, \<^verbatim>\<open>getOrCreatePool\<close> creates
  lazily. Section 4.4: \<^verbatim>\<open>addPod\<close> upserts the pod entry, that is, it keeps an entry that
  is there and stores the new pod otherwise. Section 6: \<^verbatim>\<open>enqueueApplication\<close> hands the
  key to the work queue.
\<close>

definition emptyPool :: ApplicationPool where
  "emptyPool = \<lparr>sessions = [], pods = Map.empty\<rparr>"

definition getApplicationPool :: "ApplicationManager \<Rightarrow> string \<Rightarrow> ApplicationPool option" where
  "getApplicationPool appc key = applicationPools appc key"

definition getOrCreateApplicationPool ::
  "string \<Rightarrow> ApplicationManager \<Rightarrow> ApplicationPool \<times> ApplicationManager" where
  "getOrCreateApplicationPool key appc =
     (case applicationPools appc key of
        Some pool \<Rightarrow> (pool, appc)
      | None \<Rightarrow> (emptyPool, appc\<lparr>applicationPools := (applicationPools appc)(key \<mapsto> emptyPool)\<rparr>))"

text \<open>A method that changes the pool stored under \<open>key\<close> in place.\<close>

definition modifyPool ::
  "string \<Rightarrow> (ApplicationPool \<Rightarrow> ApplicationPool) \<Rightarrow> ApplicationManager \<Rightarrow> ApplicationManager" where
  "modifyPool key f appc =
     (case applicationPools appc key of
        Some pool \<Rightarrow> appc\<lparr>applicationPools := (applicationPools appc)(key \<mapsto> f pool)\<rparr>
      | None \<Rightarrow> appc)"

definition getPod :: "ApplicationPool \<Rightarrow> string \<Rightarrow> nat option" where
  "getPod pool name = pods pool name"

definition NewApplicationPod :: "string \<Rightarrow> ApplicationManager \<Rightarrow> nat \<times> ApplicationManager" where
  "NewApplicationPod name appc =
     (podNext appc,
      appc\<lparr>podHeap := (podHeap appc)(podNext appc := \<lparr>podName = name, podSessions = {}\<rparr>),
            podNext := Suc (podNext appc)\<rparr>)"

definition addPod :: "string \<Rightarrow> string \<Rightarrow> nat \<Rightarrow> ApplicationManager \<Rightarrow> nat \<times> ApplicationManager" where
  "addPod key name pod appc =
     (case applicationPools appc key of
        Some pool \<Rightarrow>
          (case pods pool name of
             Some p \<Rightarrow> (p, appc)
           | None \<Rightarrow> (pod, modifyPool key (\<lambda>pool. pool\<lparr>pods := (pods pool)(name \<mapsto> pod)\<rparr>) appc))
      | None \<Rightarrow> (pod, appc))"

definition podSessionsAdd :: "nat \<Rightarrow> string \<Rightarrow> ApplicationManager \<Rightarrow> ApplicationManager" where
  "podSessionsAdd pod sessionId appc =
     appc\<lparr>podHeap := (podHeap appc)
       (pod := (podHeap appc pod)\<lparr>podSessions := insert sessionId (podSessions (podHeap appc pod))\<rparr>)\<rparr>"

definition podSessionsDelete :: "nat \<Rightarrow> string \<Rightarrow> ApplicationManager \<Rightarrow> ApplicationManager" where
  "podSessionsDelete pod sessionId appc =
     appc\<lparr>podHeap := (podHeap appc)
       (pod := (podHeap appc pod)\<lparr>podSessions := podSessions (podHeap appc pod) - {sessionId}\<rparr>)\<rparr>"

definition enqueueApplication :: "string \<Rightarrow> ApplicationManager \<Rightarrow> ApplicationManager" where
  "enqueueApplication key appc = appc\<lparr>queue := queue appc @ [key]\<rparr>"

definition logError :: "string \<Rightarrow> ApplicationManager \<Rightarrow> ApplicationManager" where
  "logError err appc = appc\<lparr>errorLog := errorLog appc @ [err]\<rparr>"

definition NewCurrentMetaTime :: "Collaborators \<Rightarrow> ApplicationManager \<Rightarrow> Time \<times> ApplicationManager" where
  "NewCurrentMetaTime env appc =
     (currentTime env (timeReads appc), appc\<lparr>timeReads := Suc (timeReads appc)\<rparr>)"

section \<open>Pool update rules\<close>

definition updateSessionPool ::
  "Collaborators \<Rightarrow> string \<Rightarrow> nat \<Rightarrow> bool \<Rightarrow> ApplicationManager \<Rightarrow> ApplicationManager" where
  "updateSessionPool env applicationKey a deleted appc0 =
     (let session = sessionHeap appc0 a;
          sessionId = UID session;
          (pool, appc) = getOrCreateApplicationPool applicationKey appc0
      in if SessionInTerminalState session then
           (let appc1 =
                  (case PodReference (Status session) of
                     Some name \<Rightarrow>
                       (case getPod pool name of
                          Some pod \<Rightarrow> podSessionsDelete pod sessionId appc
                        | None \<Rightarrow> appc)
                   | None \<Rightarrow> appc)
            in modifyPool applicationKey (deleteSession sessionId) appc1)
         else if deleted = False then
           (let appc1 =
                  (case PodReference (Status session) of
                     Some name \<Rightarrow>
                       (let (new, appc') = NewApplicationPod name appc;
                            (pod, appc'') = addPod applicationKey name new appc'
                        in podSessionsAdd pod sessionId appc'')
                   | None \<Rightarrow> appc)
            in modifyPool applicationKey (addSession sessionId a) appc1)
         else
           (case getSession pool sessionId of
              Some savedSession \<Rightarrow>
                (if DeletionTimestamp (sessionHeap appc savedSession) = None
                 then (let (now, appc1) = NewCurrentMetaTime env appc
                       in appc1\<lparr>sessionHeap := (sessionHeap appc1)
                            (savedSession :=
                               (sessionHeap appc1 savedSession)\<lparr>DeletionTimestamp := Some now\<rparr>)\<rparr>)
                 else appc)
            | None \<Rightarrow> appc))"

section \<open>Event handlers\<close>

definition onApplicationSessionDeleteEvent ::
  "Collaborators \<Rightarrow> nat \<Rightarrow> ApplicationManager \<Rightarrow> ApplicationManager" where
  "onApplicationSessionDeleteEvent env a appc =
     (let appc1 =
            (if DeletionTimestamp (sessionHeap appc a) = None
             then (let (now, appc') = NewCurrentMetaTime env appc
                   in appc'\<lparr>sessionHeap := (sessionHeap appc')
                        (a := (sessionHeap appc' a)\<lparr>DeletionTimestamp := Some now\<rparr>)\<rparr>)
             else appc);
          (applicationKey, err) = getSessionApplicationKey (sessionHeap appc1 a)
      in case err of
           Some e \<Rightarrow> logError e appc1
         | None \<Rightarrow>
             enqueueApplication applicationKey
               (updateSessionPool env applicationKey a True appc1))"

text \<open>
  After the error branch \<^verbatim>\<open>onApplicationSessionAddEvent\<close> has no \<^verbatim>\<open>return\<close>: it goes
  on with the empty key that \<^verbatim>\<open>getSessionApplicationKey\<close> returned beside the error.
\<close>

definition onApplicationSessionAddEvent ::
  "Collaborators \<Rightarrow> nat \<Rightarrow> ApplicationManager \<Rightarrow> ApplicationManager" where
  "onApplicationSessionAddEvent env a appc =
     (if DeletionTimestamp (sessionHeap appc a) \<noteq> None
      then onApplicationSessionDeleteEvent env a appc
      else
        (let (applicationKey, err) = getSessionApplicationKey (sessionHeap appc a);
             appc1 =
               (case err of
                  Some e \<Rightarrow>
                    (let appc' = logError e appc
                     in if SessionIsOpen (sessionHeap appc' a)
                        then snd (closeApplicationSession env a appc')
                        else appc')
                | None \<Rightarrow> appc)
         in enqueueApplication applicationKey
              (updateSessionPool env applicationKey a False appc1)))"

text \<open>
  \<^verbatim>\<open>reflect.DeepEqual\<close> on the two pointers compares the sessions they point to: the
  fields of the records and what the records leave out. The old copy is the cached session
  if there is one, and its address is \<open>oldAddr\<close>.
\<close>

definition onApplicationSessionUpdateEvent ::
  "Collaborators \<Rightarrow> nat \<Rightarrow> nat \<Rightarrow> ApplicationManager \<Rightarrow> ApplicationManager" where
  "onApplicationSessionUpdateEvent env old cur appc =
     (if sessionHeap appc old = sessionHeap appc cur \<and> sameUnmodelled env old cur then appc
      else
        (let (applicationKey, err) = getSessionApplicationKey (sessionHeap appc cur);
             appc1 =
               (case err of
                  Some e \<Rightarrow>
                    (let appc' = logError e appc
                     in if SessionIsOpen (sessionHeap appc' cur)
                        then snd (closeApplicationSession env cur appc')
                        else appc')
                | None \<Rightarrow> appc);
             (pool, appc2) = getOrCreateApplicationPool applicationKey appc1;
             oldAddr =
               (case getSession pool (UID (sessionHeap appc2 cur)) of
                  Some v \<Rightarrow> v
                | None \<Rightarrow> old);
             oldCopy = sessionHeap appc2 oldAddr;
             appc3 = updateSessionPool env applicationKey cur False appc2;
             newCopy = sessionHeap appc3 cur
         in if (DeletionTimestamp newCopy \<noteq> None \<and> DeletionTimestamp oldCopy = None)
               \<or> \<not> (Status oldCopy = Status newCopy \<and> sameUnmodelledStatus env oldAddr cur)
            then enqueueApplication applicationKey appc3
            else appc3))"

section \<open>Session events from a node\<close>

datatype Panic = NilPointerDereference | IndexOutOfRange

text \<open>
  Modelled from the spec: \<^verbatim>\<open>util.SessionIsClosed\<close> is not among the sources. Section 4.3
  treats a report without a cached copy as a delete if the reported status is terminal.
\<close>

definition SessionIsClosed :: "ApplicationSession \<Rightarrow> bool" where
  "SessionIsClosed session =
     (SessionStatus (Status session) = SessionStatusClosed
      \<or> SessionStatus (Status session) = SessionStatusTimeout)"

text \<open>
  \<^verbatim>\<open>onSessionEventFromNode\<close> calls \<^verbatim>\<open>pool.getSession\<close> on what \<^verbatim>\<open>getApplicationPool\<close>
  returned without testing it: on nil the read lock of the pool is taken through a nil
  pointer, and the function panics. \<^verbatim>\<open>util.PodNotTerminated\<close> is not among the sources
  and is a parameter.
\<close>

definition onSessionEventFromNode ::
  "Collaborators \<Rightarrow> (Pod \<Rightarrow> bool) \<Rightarrow> Pod \<Rightarrow> nat \<Rightarrow> ApplicationManager
     \<Rightarrow> Panic + ApplicationManager" where
  "onSessionEventFromNode env PodNotTerminated pod a appc =
     (let session = sessionHeap appc a;
          newStatus = Status session;
          applicationKey = ApplicationName (Spec session)
      in case getApplicationPool appc applicationKey of
           None \<Rightarrow> Inl NilPointerDereference
         | Some pool \<Rightarrow>
             (let appc1 =
                    (case getSession pool (UID session) of
                       None \<Rightarrow>
                         (if SessionIsClosed session
                          then onApplicationSessionDeleteEvent env a appc
                          else onApplicationSessionAddEvent env a appc)
                     | Some oldCopy \<Rightarrow>
                         (let appc' = onApplicationSessionUpdateEvent env oldCopy a appc
                          in appc'\<lparr>persists := persists appc' @ [(oldCopy, newStatus)]\<rparr>))
              in if KillInstanceWhenSessionClosed (Spec (sessionHeap appc1 a))
                    \<and> SessionStatus newStatus = SessionStatusClosed
                    \<and> PodNotTerminated pod
                 then Inr (appc1\<lparr>calls := calls appc1 @ [TerminatePod pod]\<rparr>)
                 else Inr appc1))"

section \<open>Deleting a session\<close>

definition deleteApplicationSession ::
  "Collaborators \<Rightarrow> string \<Rightarrow> nat \<Rightarrow> ApplicationManager
     \<Rightarrow> string option \<times> ApplicationManager" where
  "deleteApplicationSession env applicationKey a appc =
     (let sessionId = UID (sessionHeap appc a) in
      case getApplicationPool appc applicationKey of
        None \<Rightarrow> (None, appc)
      | Some _ \<Rightarrow>
          if SessionIsOpen (sessionHeap appc a) then closeApplicationSession env a appc
          else
            (let (err, appc1) =
                   (if SessionIsPending (sessionHeap appc a)
                    then changeSessionStatus env a SessionStatusTimeout appc
                    else (None, appc))
             in case err of
                  Some e \<Rightarrow> (Some e, appc1)
                | None \<Rightarrow>
                    (let appc2 =
                           (case PodReference (Status (sessionHeap appc1 a)) of
                              Some name \<Rightarrow>
                                (case getApplicationPool appc1 applicationKey of
                                   Some pool \<Rightarrow>
                                     (case getPod pool name of
                                        Some pod \<Rightarrow> podSessionsDelete pod sessionId appc1
                                      | None \<Rightarrow> appc1)
                                 | None \<Rightarrow> appc1)
                            | None \<Rightarrow> appc1)
                     in (None, modifyPool applicationKey (deleteSession sessionId) appc2))))"

section \<open>The sync of an application's sessions\<close>

text \<open>
  The first loop of \<^verbatim>\<open>syncApplicationSessions\<close>, over \<^verbatim>\<open>idleRunningPods\<close>, with its
  variables \<open>si\<close> and \<open>sessionErrors\<close>. The pods of the list are addresses of pool pods.
  Two more arguments only observe the run: \<open>k\<close> counts the pods visited so far, and \<open>tr\<close>
  collects, for every call of \<^verbatim>\<open>bindSessionToPod\<close>, the position of the pod in the list,
  the index of the session in \<^verbatim>\<open>pendingSessions\<close>, and whether the call succeeded.
  Indexing \<^verbatim>\<open>pendingSessions\<close> beyond its length panics.
\<close>

type_synonym Attempt = "nat \<times> nat \<times> bool"

fun bindLoop ::
  "Collaborators \<Rightarrow> string \<Rightarrow> nat list \<Rightarrow> nat list \<Rightarrow> nat \<Rightarrow> nat \<Rightarrow> string list
     \<Rightarrow> Attempt list \<Rightarrow> ApplicationManager
     \<Rightarrow> Panic + (nat \<times> string list \<times> Attempt list \<times> ApplicationManager)" where
  "bindLoop env applicationKey pending [] k si sessionErrors tr appc =
     Inr (si, sessionErrors, tr, appc)"
| "bindLoop env applicationKey pending (rp # rps) k si sessionErrors tr appc =
     (let pod = findPod env (calls appc) (podName (podHeap appc rp));
          appc1 = appc\<lparr>calls := calls appc @ [FindPod (podName (podHeap appc rp))]\<rparr>
      in case pod of
           None \<Rightarrow> bindLoop env applicationKey pending rps (Suc k) si sessionErrors tr appc1
         | Some p \<Rightarrow>
             if podSessions (podHeap appc1 rp) = {} then
               if si = length pending then Inr (si, sessionErrors, tr, appc1)
               else if length pending < si then Inl IndexOutOfRange
               else
                 (case bindSessionToPod env applicationKey p (pending ! si) appc1 of
                    (Some e, appc2) \<Rightarrow>
                      bindLoop env applicationKey pending rps (Suc k) si
                        (sessionErrors @ [e]) (tr @ [(k, si, False)]) (logError e appc2)
                  | (None, appc2) \<Rightarrow>
                      bindLoop env applicationKey pending rps (Suc k) (Suc si)
                        sessionErrors (tr @ [(k, si, True)])
                        (podSessionsAdd rp (UID (sessionHeap appc2 (pending ! si))) appc2))
             else bindLoop env applicationKey pending rps (Suc k) si sessionErrors tr appc1)"

fun timeoutLoop ::
  "Collaborators \<Rightarrow> nat list \<Rightarrow> string list \<Rightarrow> ApplicationManager
     \<Rightarrow> string list \<times> ApplicationManager" where
  "timeoutLoop env [] sessionErrors appc = (sessionErrors, appc)"
| "timeoutLoop env (v # vs) sessionErrors appc =
     (case changeSessionStatus env v SessionStatusTimeout appc of
        (Some e, appc1) \<Rightarrow> timeoutLoop env vs (sessionErrors @ [e]) (logError e appc1)
      | (None, appc1) \<Rightarrow> timeoutLoop env vs sessionErrors appc1)"

fun deletingLoop ::
  "Collaborators \<Rightarrow> string \<Rightarrow> nat list \<Rightarrow> string list \<Rightarrow> ApplicationManager
     \<Rightarrow> string list \<times> ApplicationManager" where
  "deletingLoop env applicationKey [] sessionErrors appc = (sessionErrors, appc)"
| "deletingLoop env applicationKey (v # vs) sessionErrors appc =
     (case deleteApplicationSession env applicationKey v appc of
        (Some e, appc1) \<Rightarrow>
          deletingLoop env applicationKey vs (sessionErrors @ [e]) (logError e appc1)
      | (None, appc1) \<Rightarrow> deletingLoop env applicationKey vs sessionErrors appc1)"

fun joinErrors :: "string list \<Rightarrow> string" where
  "joinErrors [] = []"
| "joinErrors [e] = e"
| "joinErrors (e # es) = e @ '' '' @ joinErrors es"

text \<open>
  \<^verbatim>\<open>groupApplicationPods\<close> is not among the sources: the idle running pods it returns are
  the argument \<open>idleRunningPods\<close>.
\<close>

definition syncApplicationSessions ::
  "Collaborators \<Rightarrow> (nat \<Rightarrow> Time) \<Rightarrow> nat list \<Rightarrow> string \<Rightarrow> ApplicationManager
     \<Rightarrow> Panic + (string option \<times> ApplicationManager)" where
  "syncApplicationSessions env clock idleRunningPods applicationKey appc =
     (case getApplicationPool appc applicationKey of
        None \<Rightarrow> Inr (None, appc)
      | Some pool \<Rightarrow>
          (let g = groupSessionsByState clock (sessionHeap appc) pool in
           case bindLoop env applicationKey (pendingSessions g) idleRunningPods 0 0 [] [] appc of
             Inl p \<Rightarrow> Inl p
           | Inr (si, errs1, tr, appc1) \<Rightarrow>
               (let (errs2, appc2) = timeoutLoop env (timeoutSessions g) errs1 appc1;
                    (errs3, appc3) =
                      deletingLoop env applicationKey (deletingSessions g) errs2 appc2
                in if 0 < length errs3
                   then Inr (Some (''Some sessions failed to be sync, errors=['' @ joinErrors errs3
                                   @ '']''), appc3)
                   else Inr (None, appc3))))"

section \<open>Scenario values\<close>

text \<open>
  The session, the pod and the collaborators of the first scenario of section 8 of the
  specification: a pending session \<open>S1\<close> of application \<^verbatim>\<open>a/x\<close> with uid \<^verbatim>\<open>u1\<close>, a pod
  \<open>P1\<close> with one container port, collaborators that accept every call.
\<close>

definition S1 :: ApplicationSession where
  "S1 = \<lparr>UID = ''u1'', sessionName = ''S1'', CreationTimestamp = 0, DeletionTimestamp = None,
          Finalizers = [],
          Spec = \<lparr>ApplicationName = ''a/x'', SessionData = ''data'',
                  KillInstanceWhenSessionClosed = False, CloseGracePeriodSeconds = None,
                  OpenTimeoutSeconds = 10\<rparr>,
          Status = \<lparr>AccessEndPoints = [], SessionStatus = SessionStatusPending,
                    ClientSessions = [''c1''], AvailableTime = None, CloseTime = None,
                    AvailableTimeMicro = 0, PodReference = None\<rparr>\<rparr>"

definition P1 :: Pod where
  "P1 = \<lparr>podKey = ''P1'',
          Containers =
            [\<lparr>Ports = [\<lparr>portProtocol = ''TCP'', HostIP = ''10.0.0.1'', HostPort = 8080\<rparr>]\<rparr>],
          podPhase = ''Running'', podDeletionTimestamp = None\<rparr>"

definition quiet :: Collaborators where
  "quiet = \<lparr>findPod = (\<lambda>log name. if name = ''P1'' then Some P1 else None),
            openSession = (\<lambda>log pod session. None),
            closeSession = (\<lambda>log pod session. None),
            updateSessionStatus = (\<lambda>log session status. None),
            currentTime = (\<lambda>n. 100 + int n),
            sameUnmodelled = (\<lambda>a b. True),
            sameUnmodelledStatus = (\<lambda>a b. True)\<rparr>"

text \<open>A manager without pools, in which every session address holds \<open>S1\<close>.\<close>

definition manager0 :: ApplicationManager where
  "manager0 = \<lparr>sessionHeap = (\<lambda>a. S1), podHeap = (\<lambda>p. \<lparr>podName = [], podSessions = {}\<rparr>),
               podNext = 0, applicationPools = Map.empty, queue = [], calls = [],
               persists = [], errorLog = [], timeReads = 0\<rparr>"

text \<open>A pod that declares two ports in one container.\<close>

definition twoPortPod :: Pod where
  "twoPortPod = \<lparr>podKey = ''P1'',
          Containers =
            [\<lparr>Ports = [\<lparr>portProtocol = ''TCP'', HostIP = ''10.0.0.1'', HostPort = 8080\<rparr>,
                       \<lparr>portProtocol = ''TCP'', HostIP = ''10.0.0.1'', HostPort = 8081\<rparr>]\<rparr>],
          podPhase = ''Running'', podDeletionTimestamp = None\<rparr>"

text \<open>A session manager whose nodes refuse every \<^verbatim>\<open>OpenSession\<close>.\<close>

definition refusing :: Collaborators where
  "refusing = quiet\<lparr>openSession := (\<lambda>log pod session. Some ''node unreachable'')\<rparr>"

text \<open>
  \<open>S3\<close> is available on pod \<open>P1\<close> and asks for the pod to be killed when it closes
  (the third scenario); \<open>S4\<close> refers to a pod \<^verbatim>\<open>P4\<close> that the pod manager does not know.
  In \<open>manager1\<close> they are at the addresses 1 and 2.
\<close>

definition S3 :: ApplicationSession where
  "S3 = S1\<lparr>UID := ''u3'', sessionName := ''S3'',
           Spec := (Spec S1)\<lparr>KillInstanceWhenSessionClosed := True\<rparr>,
           Status := (Status S1)\<lparr>SessionStatus := SessionStatusAvailable,
                                 PodReference := Some ''P1''\<rparr>\<rparr>"

definition S4 :: ApplicationSession where
  "S4 = S3\<lparr>UID := ''u4'', sessionName := ''S4'',
           Status := (Status S3)\<lparr>PodReference := Some ''P4''\<rparr>\<rparr>"

definition manager1 :: ApplicationManager where
  "manager1 = manager0\<lparr>sessionHeap := (\<lambda>a. S1)(1 := S3, 2 := S4)\<rparr>"

section \<open>The bands in the words of the specification\<close>

text \<open>
  The open timeout of section 4.1 in nanoseconds: \<^verbatim>\<open>spec.openTimeoutSeconds\<close> seconds when
  positive, else 10 seconds.
\<close>

definition openTimeout :: "ApplicationSession \<Rightarrow> int" where
  "openTimeout v =
     (if 0 < unat (OpenTimeoutSeconds (Spec v))
      then int (unat (OpenTimeoutSeconds (Spec v))) * 1000000000 else 10 * 1000000000)"

text \<open>
  The band of a session by the precedence of section 4.1: closing, else deleting, else
  timeout, else pending, else active, else none.
\<close>

datatype Band = ClosingBand | DeletingBand | TimeoutBand | PendingBand | ActiveBand

definition bandOf :: "Time \<Rightarrow> ApplicationSession \<Rightarrow> Band option" where
  "bandOf now v =
     (let status = SessionStatus (Status v) in
      if status = SessionStatusClosing then Some ClosingBand
      else if DeletionTimestamp v \<noteq> None then Some DeletingBand
      else if (status = SessionStatusUnspecified \<or> status = SessionStatusPending
               \<or> status = SessionStatusStarting)
              \<and> openTimeout v < now - CreationTimestamp v
      then Some TimeoutBand
      else if status = SessionStatusUnspecified \<or> status = SessionStatusPending
      then Some PendingBand
      else if status = SessionStatusStarting \<or> status = SessionStatusAvailable
              \<or> status = SessionStatusInUse
      then Some ActiveBand
      else None)"

definition bandList ::
  "(nat \<Rightarrow> Time) \<Rightarrow> (nat \<Rightarrow> ApplicationSession) \<Rightarrow> Band \<Rightarrow> nat list \<Rightarrow> nat list" where
  "bandList clock heap b as = filter (\<lambda>a. bandOf (clock a) (heap a) = Some b) as"

text \<open>
  Six sessions, one for each band and a closed one, and a pool that holds them. The clock
  shows 5 seconds; the session at address 3 was created 20 seconds before time 0.
\<close>

definition bandHeap :: "nat \<Rightarrow> ApplicationSession" where
  "bandHeap =
     (\<lambda>a. S1)
      (1 := S1\<lparr>Status := (Status S1)\<lparr>SessionStatus := SessionStatusClosing\<rparr>\<rparr>,
       2 := S1\<lparr>DeletionTimestamp := Some 1\<rparr>,
       3 := S1\<lparr>CreationTimestamp := - 20000000000,
               Status := (Status S1)\<lparr>SessionStatus := SessionStatusStarting\<rparr>\<rparr>,
       4 := S3,
       5 := S1\<lparr>Status := (Status S1)\<lparr>SessionStatus := SessionStatusClosed\<rparr>\<rparr>)"

definition bandPool :: ApplicationPool where
  "bandPool = \<lparr>sessions = [(''u0'', 0), (''u1'', 1), (''u2'', 2), (''u3'', 3), (''u4'', 4),
                            (''u5'', 5)],
               pods = Map.empty\<rparr>"

section \<open>Sequences of pool updates\<close>

text \<open>
  A pool event is a call of \<^verbatim>\<open>updateSessionPool\<close>: the application key, the address of
  the session and the \<^verbatim>\<open>deleted\<close> flag. Between the events of a sequence nothing else
  writes to the sessions.
\<close>

type_synonym PoolEvent = "string \<times> nat \<times> bool"

definition applyPoolEvents ::
  "Collaborators \<Rightarrow> PoolEvent list \<Rightarrow> ApplicationManager \<Rightarrow> ApplicationManager" where
  "applyPoolEvents env events appc =
     fold (\<lambda>(key, a, deleted). updateSessionPool env key a deleted) events appc"

text \<open>Invariant 2 of section 3: no pool holds a session in a terminal state.\<close>

definition noTerminalSessionInPools :: "ApplicationManager \<Rightarrow> bool" where
  "noTerminalSessionInPools appc =
     (\<forall>pool \<in> ran (applicationPools appc). \<forall>a \<in> set (sessionList pool).
        \<not> SessionInTerminalState (sessionHeap appc a))"

text \<open>The sessions of the pool of an application; none if there is no pool.\<close>

definition poolSessions :: "ApplicationManager \<Rightarrow> string \<Rightarrow> (string \<times> nat) list" where
  "poolSessions appc key =
     (case applicationPools appc key of Some pool \<Rightarrow> sessions pool | None \<Rightarrow> [])"

text \<open>
  \<open>S3closed\<close> is \<open>S3\<close> as a node reports it after the close. In \<open>manager2\<close> the session
  \<open>S3\<close> is at address 1 and \<open>S3closed\<close> at address 2.
\<close>

definition S3closed :: ApplicationSession where
  "S3closed = S3\<lparr>Status := (Status S3)\<lparr>SessionStatus := SessionStatusClosed\<rparr>\<rparr>"

definition manager2 :: ApplicationManager where
  "manager2 = manager0\<lparr>sessionHeap := (\<lambda>a. S1)(1 := S3, 2 := S3closed)\<rparr>"

text \<open>
  A pending session whose application name has three parts, and a manager without pools
  in which every session address holds it.
\<close>

definition badKeySession :: ApplicationSession where
  "badKeySession = S1\<lparr>Spec := (Spec S1)\<lparr>ApplicationName := ''a/x/y''\<rparr>\<rparr>"

definition manager3 :: ApplicationManager where
  "manager3 = manager0\<lparr>sessionHeap := (\<lambda>a. badKeySession)\<rparr>"

text \<open>The pods that the log asks the pod manager to terminate, in order.\<close>

fun terminatedPods :: "Call list \<Rightarrow> Pod list" where
  "terminatedPods [] = []"
| "terminatedPods (TerminatePod pod # cs) = pod # terminatedPods cs"
| "terminatedPods (c # cs) = terminatedPods cs"

section \<open>The bind phase in the words of the specification\<close>

definition succeeded :: "Attempt \<Rightarrow> bool" where
  "succeeded t = snd (snd t)"

text \<open>
  Section 4.6, step 3, read on the attempts of a run, from the pod at position \<open>k\<close> and the
  pending session with index \<open>si\<close> on: an attempt is made with the session that is the
  candidate; after a success the next session is the candidate, after a failure the same
  session is; the next attempt is made at a later pod.
\<close>

fun attemptsChain :: "nat \<Rightarrow> nat \<Rightarrow> Attempt list \<Rightarrow> bool" where
  "attemptsChain k si [] = True"
| "attemptsChain k si ((p, i, ok) # rest) =
     (k \<le> p \<and> i = si \<and> attemptsChain (Suc p) (if ok then Suc si else si) rest)"

text \<open>
  An attempt at the pod at position \<open>p\<close> of \<open>idle\<close> with the session of index \<open>i\<close> of
  \<open>pending\<close>, in a run from \<open>appc\<close> to \<open>appc'\<close>: the session set of the pod was empty
  when the run began, and after a success the uid of the session is in the session set of
  the pod.
\<close>

definition attemptOk ::
  "nat list \<Rightarrow> nat list \<Rightarrow> ApplicationManager \<Rightarrow> ApplicationManager \<Rightarrow> Attempt \<Rightarrow> bool" where
  "attemptOk idle pending appc appc' t =
     (case t of (p, i, ok) \<Rightarrow>
        p < length idle \<and> i < length pending
        \<and> podSessions (podHeap appc (idle ! p)) = {}
        \<and> (ok \<longrightarrow> UID (sessionHeap appc (pending ! i))
                    \<in> podSessions (podHeap appc' (idle ! p))))"

text \<open>A pod that took a session in an attempt is not offered a session in a later one.\<close>

fun noRebind :: "nat list \<Rightarrow> Attempt list \<Rightarrow> bool" where
  "noRebind idle [] = True"
| "noRebind idle (t # rest) =
     ((succeeded t \<longrightarrow> (\<forall>t' \<in> set rest. idle ! fst t' \<noteq> idle ! fst t))
      \<and> noRebind idle rest)"

text \<open>The \<^verbatim>\<open>OpenSession\<close> calls of a log.\<close>

fun openSessionCalls :: "Call list \<Rightarrow> (Pod \<times> ApplicationSession) list" where
  "openSessionCalls [] = []"
| "openSessionCalls (OpenSession pod session # cs) = (pod, session) # openSessionCalls cs"
| "openSessionCalls (c # cs) = openSessionCalls cs"

text \<open>The uids of the sessions that a log offers to pods with \<^verbatim>\<open>OpenSession\<close>, in order.\<close>

definition offeredSessions :: "Call list \<Rightarrow> string list" where
  "offeredSessions cs = map (\<lambda>c. UID (snd c)) (openSessionCalls cs)"

text \<open>
  The fourth scenario of section 8: two idle pods \<open>P1\<close> and \<open>P2\<close>, at the pod addresses
  0 and 1, and the pending session \<open>S1\<close>; the node of \<open>P1\<close> refuses to open a session.
\<close>

definition P2 :: Pod where
  "P2 = P1\<lparr>podKey := ''P2''\<rparr>"

definition picky :: Collaborators where
  "picky = \<lparr>findPod = (\<lambda>log name. if name = ''P1'' then Some P1
                                   else if name = ''P2'' then Some P2 else None),
            openSession = (\<lambda>log pod session.
                             if podKey pod = ''P1'' then Some ''P1 refuses'' else None),
            closeSession = (\<lambda>log pod session. None),
            updateSessionStatus = (\<lambda>log session status. None),
            currentTime = (\<lambda>n. 100 + int n),
            sameUnmodelled = (\<lambda>a b. True),
            sameUnmodelledStatus = (\<lambda>a b. True)\<rparr>"

definition manager4 :: ApplicationManager where
  "manager4 = manager0
     \<lparr>podHeap := (\<lambda>p. \<lparr>podName = ''P1'', podSessions = {}\<rparr>)
                   (1 := \<lparr>podName = ''P2'', podSessions = {}\<rparr>),
      podNext := 2,
      applicationPools :=
        [''a/x'' \<mapsto> \<lparr>sessions = [(''u1'', 0)], pods = [''P1'' \<mapsto> 0, ''P2'' \<mapsto> 1]\<rparr>]\<rparr>"

text \<open>
  In \<open>manager5\<close> the pool pods at the addresses 2 and 3 have the name \<^verbatim>\<open>P9\<close>, which the
  pod manager does not know. \<open>stillLooking\<close> is the bind phase for the one pending session
  \<open>S1\<close> and the pods at the addresses 1, 2 and 3.
\<close>

definition manager5 :: ApplicationManager where
  "manager5 = manager4
     \<lparr>podHeap := (podHeap manager4)
        (2 := \<lparr>podName = ''P9'', podSessions = {}\<rparr>,
         3 := \<lparr>podName = ''P9'', podSessions = {}\<rparr>)\<rparr>"

definition stillLooking ::
  "Panic + (nat \<times> string list \<times> Attempt list \<times> ApplicationManager)" where
  "stillLooking = bindLoop picky ''a/x'' [0] [1, 2, 3] 0 0 [] [] manager5"

section \<open>Status changes\<close>

text \<open>
  C10. For every session and every target status, \<^verbatim>\<open>changeSessionStatus\<close> makes exactly
  one call, \<^verbatim>\<open>UpdateSessionStatus\<close>, with a copy of the session and a status \<open>new\<close> whose
  \<open>SessionStatus\<close> is the target. \<open>ClientSessions\<close> of \<open>new\<close> is empty when the target is
  Closed or Timeout and is carried over otherwise; all other fields of the status are
  carried over. The result is what the session manager answers. The pools, the sessions
  and the pool pods are left as they were.
\<close>

theorem changeSessionStatus_persists_copy:
  "\<exists>new. changeSessionStatus env v status appc =
           (updateSessionStatus env (calls appc) (sessionHeap appc v) new,
            appc\<lparr>calls := calls appc @ [UpdateSessionStatus (sessionHeap appc v) new]\<rparr>)
     \<and> SessionStatus new = status
     \<and> (status = SessionStatusClosed \<or> status = SessionStatusTimeout \<longrightarrow> ClientSessions new = [])
     \<and> (status \<noteq> SessionStatusClosed \<and> status \<noteq> SessionStatusTimeout
          \<longrightarrow> ClientSessions new = ClientSessions (Status (sessionHeap appc v)))
     \<and> AccessEndPoints new = AccessEndPoints (Status (sessionHeap appc v))
     \<and> AvailableTime new = AvailableTime (Status (sessionHeap appc v))
     \<and> CloseTime new = CloseTime (Status (sessionHeap appc v))
     \<and> AvailableTimeMicro new = AvailableTimeMicro (Status (sessionHeap appc v))
     \<and> PodReference new = PodReference (Status (sessionHeap appc v))
     \<and> applicationPools (snd (changeSessionStatus env v status appc)) = applicationPools appc
     \<and> sessionHeap (snd (changeSessionStatus env v status appc)) = sessionHeap appc
     \<and> podHeap (snd (changeSessionStatus env v status appc)) = podHeap appc"
proof -
  let ?old = "Status (sessionHeap appc v)"
  let ?new = "if status = SessionStatusClosed \<or> status = SessionStatusTimeout
              then ?old\<lparr>SessionStatus := status, ClientSessions := []\<rparr>
              else ?old\<lparr>SessionStatus := status\<rparr>"
  show ?thesis
    by (rule exI [of _ ?new]) (simp add: changeSessionStatus_def Let_def)
qed

theorem changeSessionStatus_persists_copy_witness:
  "snd (changeSessionStatus quiet 0 SessionStatusClosed manager0)
     = manager0\<lparr>calls := [UpdateSessionStatus S1
          ((Status S1)\<lparr>SessionStatus := SessionStatusClosed, ClientSessions := []\<rparr>)]\<rparr>
   \<and> snd (changeSessionStatus quiet 0 SessionStatusAvailable manager0)
     = manager0\<lparr>calls := [UpdateSessionStatus S1
          ((Status S1)\<lparr>SessionStatus := SessionStatusAvailable\<rparr>)]\<rparr>"
  using changeSessionStatus_persists_copy [of quiet 0 SessionStatusClosed manager0]
        changeSessionStatus_persists_copy [of quiet 0 SessionStatusAvailable manager0]
  by (auto simp: manager0_def S1_def)

section \<open>Binding\<close>

lemma foldl_last_port:
  "foldl (\<lambda>acc' port. prior @ [endPointOf port]) acc ports =
     (if ports = [] then acc else prior @ [endPointOf (last ports)])"
  by (induction ports arbitrary: acc) auto

text \<open>
  What the loops of \<^verbatim>\<open>bindSessionToPod\<close> compute: the session's prior endpoints followed
  by the endpoint of the last declared port, or the prior endpoints alone when no port is
  declared.
\<close>

lemma bindEndPoints_last:
  "bindEndPoints prior start conts =
     (if concat (map Ports conts) = [] then start
      else prior @ [endPointOf (last (concat (map Ports conts)))])"
  unfolding bindEndPoints_def
  by (induction conts arbitrary: start) (auto simp: foldl_last_port)

text \<open>
  C1, at a pod with two declared ports. The claim asks for one endpoint for each declared
  port, appended to the prior endpoints. Binding the pending session \<open>S1\<close>, which has no
  endpoints, to \<open>twoPortPod\<close> succeeds and leaves the session with one endpoint, that of the
  second port.
\<close>

theorem bindSessionToPod_two_ports:
  "fst (bindSessionToPod quiet ''a/x'' twoPortPod 0 manager0) = None
   \<and> AccessEndPoints
        (Status (sessionHeap (snd (bindSessionToPod quiet ''a/x'' twoPortPod 0 manager0)) 0))
       = [\<lparr>Protocol = ''TCP'', IPAddress = ''10.0.0.1'', Port = 8081\<rparr>]"
  by (simp add: bindSessionToPod_def bindEndPoints_def endPointOf_def twoPortPod_def quiet_def
      manager0_def S1_def Let_def)

text \<open>
  C7. \<^verbatim>\<open>bindSessionToPod\<close> makes one call, \<^verbatim>\<open>OpenSession\<close>, and returns what the session
  manager answers. If the answer is an error, every session is afterwards as it was before
  the call: the status of the bound session, with its pod reference and its endpoints, is
  the snapshot again.
\<close>

theorem bindSessionToPod_reverts_on_error:
  "\<exists>sent. calls (snd (bindSessionToPod env applicationKey pod a appc))
             = calls appc @ [OpenSession pod sent]
     \<and> fst (bindSessionToPod env applicationKey pod a appc)
         = openSession env (calls appc) pod sent
     \<and> (openSession env (calls appc) pod sent \<noteq> None \<longrightarrow>
          sessionHeap (snd (bindSessionToPod env applicationKey pod a appc)) = sessionHeap appc)"
proof -
  let ?s = "sessionHeap appc a"
  let ?sent = "?s\<lparr>Status := (Status ?s)\<lparr>SessionStatus := SessionStatusStarting,
      AccessEndPoints := bindEndPoints (AccessEndPoints (Status ?s)) (AccessEndPoints (Status ?s))
        (Containers pod),
      PodReference := Some (podKey pod)\<rparr>\<rparr>"
  show ?thesis
    by (rule exI [of _ ?sent]) (auto simp: bindSessionToPod_def Let_def split: option.splits)
qed

theorem bindSessionToPod_reverts_on_error_witness:
  "fst (bindSessionToPod refusing ''a/x'' P1 0 manager0) = Some ''node unreachable''
   \<and> SessionStatus (Status (sessionHeap (snd (bindSessionToPod refusing ''a/x'' P1 0 manager0)) 0))
       = SessionStatusPending"
  using bindSessionToPod_reverts_on_error [of refusing "''a/x''" P1 0 manager0]
  by (auto simp: refusing_def manager0_def S1_def)

section \<open>Closing\<close>

text \<open>
  C8. Let \<open>s\<close> be the session that \<^verbatim>\<open>closeApplicationSession\<close> is called with. If \<open>s\<close> is
  open and refers to a pod that the pod manager finds, the session is set to Closing in
  memory, \<^verbatim>\<open>CloseSession\<close> is called with that pod and the session, and its answer is
  returned. If the pod is not found, \<^verbatim>\<open>UpdateSessionStatus\<close> is called with status Closed
  (and no client sessions), the session in memory is not changed, and nil is returned. If
  \<open>s\<close> is not open or has no pod reference, nothing is called, nothing changes, and nil is
  returned.
\<close>

theorem closeApplicationSession_cases:
  "(let s = sessionHeap appc a;
        closing = s\<lparr>Status := (Status s)\<lparr>SessionStatus := SessionStatusClosing\<rparr>\<rparr>
    in (\<forall>name p. SessionIsOpen s \<and> PodReference (Status s) = Some name
           \<and> findPod env (calls appc) name = Some p \<longrightarrow>
          closeApplicationSession env a appc =
            (closeSession env (calls appc @ [FindPod name]) p closing,
             appc\<lparr>calls := calls appc @ [FindPod name, CloseSession p closing],
                   sessionHeap := (sessionHeap appc)(a := closing)\<rparr>))
     \<and> (\<forall>name. SessionIsOpen s \<and> PodReference (Status s) = Some name
           \<and> findPod env (calls appc) name = None \<longrightarrow>
          closeApplicationSession env a appc =
            (None,
             appc\<lparr>calls := calls appc @ [FindPod name,
               UpdateSessionStatus s
                 ((Status s)\<lparr>SessionStatus := SessionStatusClosed, ClientSessions := []\<rparr>)]\<rparr>))
     \<and> (\<not> SessionIsOpen s \<or> PodReference (Status s) = None \<longrightarrow>
          closeApplicationSession env a appc = (None, appc)))"
  by (auto simp: closeApplicationSession_def changeSessionStatus_def Let_def split: option.splits)

theorem closeApplicationSession_cases_witness:
  "closeApplicationSession quiet 1 manager1 =
     (None,
      manager1\<lparr>calls := [FindPod ''P1'',
                  CloseSession P1
                    (S3\<lparr>Status := (Status S3)\<lparr>SessionStatus := SessionStatusClosing\<rparr>\<rparr>)],
               sessionHeap := (sessionHeap manager1)
                 (1 := S3\<lparr>Status := (Status S3)\<lparr>SessionStatus := SessionStatusClosing\<rparr>\<rparr>)\<rparr>)
   \<and> closeApplicationSession quiet 2 manager1 =
     (None,
      manager1\<lparr>calls := [FindPod ''P4'',
                  UpdateSessionStatus S4
                    ((Status S4)\<lparr>SessionStatus := SessionStatusClosed, ClientSessions := []\<rparr>)]\<rparr>)
   \<and> closeApplicationSession quiet 0 manager1 = (None, manager1)"
  using closeApplicationSession_cases [of manager1 1 quiet]
        closeApplicationSession_cases [of manager1 2 quiet]
        closeApplicationSession_cases [of manager1 0 quiet]
  by (simp add: Let_def manager1_def manager0_def S1_def S3_def S4_def quiet_def
      SessionIsOpen_def)

section \<open>Grouping\<close>

lemma uint_seconds:
  "uint ((ucast (s :: 32 word) :: 64 word) * Second) = uint s * 1000000000"
proof -
  have b: "uint s < 2 ^ 32" using uint_bounded [of s] by simp
  have "uint ((ucast s :: 64 word) * Second) = (uint (ucast s :: 64 word) * uint Second) mod 2 ^ 64"
    by (simp add: uint_word_ariths)
  also have "uint (ucast s :: 64 word) = uint s"
    by (simp add: uint_up_ucast is_up)
  also have "uint Second = 1000000000" by (simp add: Second_def)
  also have "(uint s * 1000000000) mod 2 ^ 64 = uint s * 1000000000"
    using b by (intro mod_pos_pos_trivial) auto
  finally show ?thesis .
qed

lemma sint_neg_small:
  fixes x :: "64 word"
  assumes "uint x < 2 ^ 63"
  shows "sint (- 1 * x) = - uint x"
proof -
  have e: "- x = word_of_int (- uint x)" by simp
  have "sint (- x) = (- uint x + 2 ^ 63) mod 2 ^ 64 - 2 ^ 63"
    by (subst e, subst int_word_sint) simp
  then have s: "sint (- x) =
      (- uint x + 9223372036854775808) mod 18446744073709551616 - 9223372036854775808"
    by simp
  have nn: "0 \<le> uint x" by simp
  have lt: "uint x < 9223372036854775808" using assms by simp
  have "(- uint x + 9223372036854775808) mod 18446744073709551616
          = - uint x + 9223372036854775808"
    using nn lt by (intro mod_pos_pos_trivial; linarith)
  with s show ?thesis by simp
qed

text \<open>The duration computed in 64 bits does not overflow.\<close>

lemma sint_neg_timeoutDuration:
  "sint (- 1 * timeoutDuration v) =
     - (if 0 < OpenTimeoutSeconds (Spec v)
        then uint (OpenTimeoutSeconds (Spec v)) * 1000000000 else 10 * 1000000000)"
proof (cases "0 < OpenTimeoutSeconds (Spec v)")
  case True
  have "uint (OpenTimeoutSeconds (Spec v)) < 2 ^ 32"
    using uint_bounded [of "OpenTimeoutSeconds (Spec v)"] by simp
  then have "uint (ucast (OpenTimeoutSeconds (Spec v)) * Second :: 64 word) < 2 ^ 63"
    by (simp add: uint_seconds)
  from sint_neg_small [OF this] True show ?thesis
    by (simp add: timeoutDuration_def uint_seconds)
next
  case False
  have "uint (10 * Second :: 64 word) < 2 ^ 63" by (simp add: Second_def)
  from sint_neg_small [OF this] False show ?thesis
    by (simp add: timeoutDuration_def DefaultSessionOpenTimeoutDuration_def Second_def)
qed

lemma before_pendingTimeoutTimeStamp:
  "CreationTimestamp v < pendingTimeoutTimeStamp now v \<longleftrightarrow>
     openTimeout v < now - CreationTimestamp v"
  unfolding pendingTimeoutTimeStamp_def timeAdd_def sint_neg_timeoutDuration openTimeout_def
  by (auto simp: word_less_nat_alt)

lemma groupSession_bandOf:
  "groupSession now v a g =
     (case bandOf now v of
        None \<Rightarrow> g
      | Some ClosingBand \<Rightarrow> g\<lparr>closingSessions := closingSessions g @ [a]\<rparr>
      | Some DeletingBand \<Rightarrow> g\<lparr>deletingSessions := deletingSessions g @ [a]\<rparr>
      | Some TimeoutBand \<Rightarrow> g\<lparr>timeoutSessions := timeoutSessions g @ [a]\<rparr>
      | Some PendingBand \<Rightarrow> g\<lparr>pendingSessions := pendingSessions g @ [a]\<rparr>
      | Some ActiveBand \<Rightarrow> g\<lparr>activeSessions := activeSessions g @ [a]\<rparr>)"
  by (simp add: groupSession_def bandOf_def Let_def before_pendingTimeoutTimeStamp
      SessionIsPending_def SessionIsOpen_def)

lemma foldl_groupSession:
  "foldl (\<lambda>g a. groupSession (clock a) (heap a) a g) g0 as =
     \<lparr>pendingSessions = pendingSessions g0 @ bandList clock heap PendingBand as,
      deletingSessions = deletingSessions g0 @ bandList clock heap DeletingBand as,
      closingSessions = closingSessions g0 @ bandList clock heap ClosingBand as,
      timeoutSessions = timeoutSessions g0 @ bandList clock heap TimeoutBand as,
      activeSessions = activeSessions g0 @ bandList clock heap ActiveBand as\<rparr>"
proof (induction as arbitrary: g0)
  case Nil
  show ?case by (simp add: bandList_def)
next
  case (Cons a as)
  show ?case
    by (simp only: foldl_Cons Cons.IH)
       (simp add: groupSession_bandOf bandList_def split: option.splits Band.splits)
qed

text \<open>
  C2. Each of the five lists that \<^verbatim>\<open>groupSessionsByState\<close> returns consists of the sessions
  of the pool, in the order of \<^verbatim>\<open>sessionList\<close>, whose band by the precedence of the
  specification (\<open>bandOf\<close>: closing, else deleting, else timeout, else pending, else active,
  with the open timeout \<open>openTimeout\<close>) is the band of that list. No session is in two
  lists.
\<close>

theorem groupSessionsByState_bands:
  "groupSessionsByState clock heap pool =
     \<lparr>pendingSessions = bandList clock heap PendingBand (sessionList pool),
      deletingSessions = bandList clock heap DeletingBand (sessionList pool),
      closingSessions = bandList clock heap ClosingBand (sessionList pool),
      timeoutSessions = bandList clock heap TimeoutBand (sessionList pool),
      activeSessions = bandList clock heap ActiveBand (sessionList pool)\<rparr>
   \<and> (\<forall>b b'. b \<noteq> b' \<longrightarrow>
         set (bandList clock heap b (sessionList pool))
           \<inter> set (bandList clock heap b' (sessionList pool)) = {})"
  by (auto simp: groupSessionsByState_def foldl_groupSession bandList_def)

theorem groupSessionsByState_bands_witness:
  "groupSessionsByState (\<lambda>a. 5000000000) bandHeap bandPool =
     \<lparr>pendingSessions = [0], deletingSessions = [2], closingSessions = [1],
      timeoutSessions = [3], activeSessions = [4]\<rparr>"
  using groupSessionsByState_bands [of "\<lambda>a. 5000000000" bandHeap bandPool]
  by (simp add: bandList_def bandOf_def openTimeout_def sessionList_def bandPool_def
      bandHeap_def S1_def S3_def Let_def)

section \<open>Pool updates\<close>

lemma snd_set_update: "snd ` set (AList.update k v al) \<subseteq> insert v (snd ` set al)"
  by (induction al) auto

lemma snd_set_delete: "snd ` set (AList.delete k al) \<subseteq> snd ` set al"
  by (auto simp: AList.delete_eq)

lemma modifyPool_fields [simp]:
  "sessionHeap (modifyPool key f appc) = sessionHeap appc"
  "podHeap (modifyPool key f appc) = podHeap appc"
  "calls (modifyPool key f appc) = calls appc"
  "queue (modifyPool key f appc) = queue appc"
  "errorLog (modifyPool key f appc) = errorLog appc"
  "persists (modifyPool key f appc) = persists appc"
  "timeReads (modifyPool key f appc) = timeReads appc"
  by (simp_all add: modifyPool_def split: option.splits)

lemma pools_modifyPool:
  "applicationPools (modifyPool key f appc) key' =
     (if key' = key then map_option f (applicationPools appc key) else applicationPools appc key')"
  by (simp add: modifyPool_def split: option.splits)

lemma podSessionsDelete_fields [simp]:
  "sessionHeap (podSessionsDelete pod uid appc) = sessionHeap appc"
  "applicationPools (podSessionsDelete pod uid appc) = applicationPools appc"
  "calls (podSessionsDelete pod uid appc) = calls appc"
  "queue (podSessionsDelete pod uid appc) = queue appc"
  "errorLog (podSessionsDelete pod uid appc) = errorLog appc"
  "persists (podSessionsDelete pod uid appc) = persists appc"
  "timeReads (podSessionsDelete pod uid appc) = timeReads appc"
  by (simp_all add: podSessionsDelete_def)

lemma podSessionsAdd_fields [simp]:
  "sessionHeap (podSessionsAdd pod uid appc) = sessionHeap appc"
  "applicationPools (podSessionsAdd pod uid appc) = applicationPools appc"
  "calls (podSessionsAdd pod uid appc) = calls appc"
  "queue (podSessionsAdd pod uid appc) = queue appc"
  "errorLog (podSessionsAdd pod uid appc) = errorLog appc"
  "persists (podSessionsAdd pod uid appc) = persists appc"
  "timeReads (podSessionsAdd pod uid appc) = timeReads appc"
  by (simp_all add: podSessionsAdd_def)

lemma NewApplicationPod_fields [simp]:
  "sessionHeap (snd (NewApplicationPod name appc)) = sessionHeap appc"
  "applicationPools (snd (NewApplicationPod name appc)) = applicationPools appc"
  "calls (snd (NewApplicationPod name appc)) = calls appc"
  "queue (snd (NewApplicationPod name appc)) = queue appc"
  "errorLog (snd (NewApplicationPod name appc)) = errorLog appc"
  "persists (snd (NewApplicationPod name appc)) = persists appc"
  "timeReads (snd (NewApplicationPod name appc)) = timeReads appc"
  by (simp_all add: NewApplicationPod_def)

lemma addPod_fields [simp]:
  "sessionHeap (snd (addPod key name pod appc)) = sessionHeap appc"
  "calls (snd (addPod key name pod appc)) = calls appc"
  "queue (snd (addPod key name pod appc)) = queue appc"
  "errorLog (snd (addPod key name pod appc)) = errorLog appc"
  "persists (snd (addPod key name pod appc)) = persists appc"
  "timeReads (snd (addPod key name pod appc)) = timeReads appc"
  by (simp_all add: addPod_def split: option.splits)

lemma pools_addPod:
  "map_option sessions (applicationPools (snd (addPod key name pod appc)) key')
     = map_option sessions (applicationPools appc key')"
  by (simp add: addPod_def pools_modifyPool split: option.splits)

lemma getOrCreateApplicationPool_fields [simp]:
  "sessionHeap (snd (getOrCreateApplicationPool key appc)) = sessionHeap appc"
  "podHeap (snd (getOrCreateApplicationPool key appc)) = podHeap appc"
  "calls (snd (getOrCreateApplicationPool key appc)) = calls appc"
  "queue (snd (getOrCreateApplicationPool key appc)) = queue appc"
  "errorLog (snd (getOrCreateApplicationPool key appc)) = errorLog appc"
  "persists (snd (getOrCreateApplicationPool key appc)) = persists appc"
  "timeReads (snd (getOrCreateApplicationPool key appc)) = timeReads appc"
  by (simp_all add: getOrCreateApplicationPool_def split: option.splits)

lemma pools_getOrCreateApplicationPool:
  "applicationPools (snd (getOrCreateApplicationPool key appc)) key' =
     (if key' = key then Some (fst (getOrCreateApplicationPool key appc))
      else applicationPools appc key')"
  by (simp add: getOrCreateApplicationPool_def split: option.splits)

lemma sessions_getOrCreateApplicationPool:
  "sessions (fst (getOrCreateApplicationPool key appc)) = poolSessions appc key"
  by (simp add: getOrCreateApplicationPool_def poolSessions_def emptyPool_def split: option.splits)

lemma pool_absent_addPod:
  "(applicationPools (snd (addPod key name pod appc)) key' = None)
     = (applicationPools appc key' = None)"
  by (simp add: addPod_def pools_modifyPool split: option.splits)

lemma poolSessions_modifyPool_delete:
  "poolSessions (modifyPool key (deleteSession uid) appc) key' =
     (if key' = key then AList.delete uid (poolSessions appc key) else poolSessions appc key')"
  by (simp add: poolSessions_def pools_modifyPool deleteSession_def split: option.splits)

lemma poolSessions_modifyPool_add:
  "applicationPools appc key \<noteq> None \<Longrightarrow>
   poolSessions (modifyPool key (addSession uid a) appc) key' =
     (if key' = key then AList.update uid a (poolSessions appc key) else poolSessions appc key')"
  by (auto simp: poolSessions_def pools_modifyPool addSession_def split: option.splits)

lemma poolSessions_same_pools:
  "applicationPools appc' = applicationPools appc \<Longrightarrow> poolSessions appc' = poolSessions appc"
  by (auto simp: poolSessions_def fun_eq_iff)

lemma poolSessions_addPod [simp]:
  "poolSessions (snd (addPod key name pod appc)) = poolSessions appc"
proof
  fix key'
  show "poolSessions (snd (addPod key name pod appc)) key' = poolSessions appc key'"
    using pools_addPod [of key name pod appc key']
    by (auto simp: poolSessions_def split: option.splits)
qed

lemma poolSessions_getOrCreateApplicationPool [simp]:
  "poolSessions (snd (getOrCreateApplicationPool key appc)) = poolSessions appc"
  by (auto simp: poolSessions_def getOrCreateApplicationPool_def emptyPool_def fun_eq_iff
      split: option.splits)

lemma poolSessions_simple [simp]:
  "poolSessions (podSessionsDelete pod uid appc) = poolSessions appc"
  "poolSessions (podSessionsAdd pod uid appc) = poolSessions appc"
  "poolSessions (snd (NewApplicationPod name appc)) = poolSessions appc"
  "poolSessions (appc\<lparr>sessionHeap := h\<rparr>) = poolSessions appc"
  "poolSessions (appc\<lparr>timeReads := n\<rparr>) = poolSessions appc"
  "poolSessions (appc\<lparr>queue := q\<rparr>) = poolSessions appc"
  "poolSessions (appc\<lparr>calls := c\<rparr>) = poolSessions appc"
  "poolSessions (appc\<lparr>errorLog := l\<rparr>) = poolSessions appc"
  "poolSessions (appc\<lparr>persists := ps\<rparr>) = poolSessions appc"
  by (rule poolSessions_same_pools, simp add: podSessionsDelete_def podSessionsAdd_def
      NewApplicationPod_def)+

text \<open>The three branches of \<^verbatim>\<open>updateSessionPool\<close>.\<close>

lemma updateSessionPool_terminal:
  assumes "SessionInTerminalState (sessionHeap appc a)"
  obtains appc1 where
    "updateSessionPool env key a deleted appc
       = modifyPool key (deleteSession (UID (sessionHeap appc a))) appc1"
    "applicationPools appc1 key \<noteq> None"
    "poolSessions appc1 = poolSessions appc"
    "sessionHeap appc1 = sessionHeap appc" "calls appc1 = calls appc"
    "queue appc1 = queue appc" "errorLog appc1 = errorLog appc"
    "persists appc1 = persists appc" "timeReads appc1 = timeReads appc"
    "\<And>pool name pod. applicationPools appc key = Some pool
       \<Longrightarrow> PodReference (Status (sessionHeap appc a)) = Some name
       \<Longrightarrow> getPod pool name = Some pod
       \<Longrightarrow> UID (sessionHeap appc a) \<notin> podSessions (podHeap appc1 pod)"
proof -
  obtain pool appc0 where g: "getOrCreateApplicationPool key appc = (pool, appc0)"
    by (cases "getOrCreateApplicationPool key appc")
  then have s0: "appc0 = snd (getOrCreateApplicationPool key appc)"
    and p0: "pool = fst (getOrCreateApplicationPool key appc)" by simp_all
  have pres: "applicationPools appc0 key \<noteq> None"
    by (simp add: s0 pools_getOrCreateApplicationPool)
  have same: "\<And>pool'. applicationPools appc key = Some pool' \<Longrightarrow> pool = pool'"
    using g by (auto simp: getOrCreateApplicationPool_def)
  let ?uid = "UID (sessionHeap appc a)"
  let ?appc1 = "case PodReference (Status (sessionHeap appc a)) of
                  Some name \<Rightarrow> (case getPod pool name of
                                  Some pod \<Rightarrow> podSessionsDelete pod ?uid appc0
                                | None \<Rightarrow> appc0)
                | None \<Rightarrow> appc0"
  have u: "updateSessionPool env key a deleted appc = modifyPool key (deleteSession ?uid) ?appc1"
    using assms by (simp add: updateSessionPool_def Let_def g)
  show thesis
  proof (rule that [of ?appc1])
    show "updateSessionPool env key a deleted appc = modifyPool key (deleteSession ?uid) ?appc1"
      by (rule u)
    show "applicationPools ?appc1 key \<noteq> None" using pres by (simp split: option.splits)
    show "poolSessions ?appc1 = poolSessions appc" by (simp add: s0 split: option.splits)
    show "sessionHeap ?appc1 = sessionHeap appc" by (simp add: s0 split: option.splits)
    show "calls ?appc1 = calls appc" by (simp add: s0 split: option.splits)
    show "queue ?appc1 = queue appc" by (simp add: s0 split: option.splits)
    show "errorLog ?appc1 = errorLog appc" by (simp add: s0 split: option.splits)
    show "persists ?appc1 = persists appc" by (simp add: s0 split: option.splits)
    show "timeReads ?appc1 = timeReads appc" by (simp add: s0 split: option.splits)
    show "?uid \<notin> podSessions (podHeap ?appc1 pod)"
      if "applicationPools appc key = Some pool'"
        "PodReference (Status (sessionHeap appc a)) = Some name" "getPod pool' name = Some pod"
      for pool' name pod
      using that same [of pool'] by (simp add: podSessionsDelete_def)
  qed
qed

lemma updateSessionPool_insert:
  assumes "\<not> SessionInTerminalState (sessionHeap appc a)" and "\<not> deleted"
  obtains appc1 where
    "updateSessionPool env key a deleted appc
       = modifyPool key (addSession (UID (sessionHeap appc a)) a) appc1"
    "applicationPools appc1 key \<noteq> None"
    "poolSessions appc1 = poolSessions appc"
    "sessionHeap appc1 = sessionHeap appc" "calls appc1 = calls appc"
    "queue appc1 = queue appc" "errorLog appc1 = errorLog appc"
    "persists appc1 = persists appc" "timeReads appc1 = timeReads appc"
proof -
  obtain pool appc0 where g: "getOrCreateApplicationPool key appc = (pool, appc0)"
    by (cases "getOrCreateApplicationPool key appc")
  then have s0: "appc0 = snd (getOrCreateApplicationPool key appc)" by simp
  have pres: "applicationPools appc0 key \<noteq> None"
    by (simp add: s0 pools_getOrCreateApplicationPool)
  let ?uid = "UID (sessionHeap appc a)"
  show thesis
  proof (cases "PodReference (Status (sessionHeap appc a))")
    case None
    have "updateSessionPool env key a deleted appc = modifyPool key (addSession ?uid a) appc0"
      using assms None by (simp add: updateSessionPool_def Let_def g)
    then show thesis using pres by (rule that) (simp_all add: s0)
  next
    case (Some name)
    obtain new appc2 where n: "NewApplicationPod name appc0 = (new, appc2)"
      by (cases "NewApplicationPod name appc0")
    obtain pod appc3 where p: "addPod key name new appc2 = (pod, appc3)"
      by (cases "addPod key name new appc2")
    have s2: "appc2 = snd (NewApplicationPod name appc0)" using n by simp
    have s3: "appc3 = snd (addPod key name new appc2)" using p by simp
    have pres3: "applicationPools (podSessionsAdd pod ?uid appc3) key \<noteq> None"
      using pres by (simp add: s3 pool_absent_addPod s2)
    have "updateSessionPool env key a deleted appc
            = modifyPool key (addSession ?uid a) (podSessionsAdd pod ?uid appc3)"
      using assms Some by (simp add: updateSessionPool_def Let_def g n p)
    then show thesis using pres3 by (rule that) (simp_all add: s3 s2 s0)
  qed
qed

lemma updateSessionPool_stamp:
  assumes "\<not> SessionInTerminalState (sessionHeap appc a)" and "deleted"
  obtains appc1 where
    "updateSessionPool env key a deleted appc = appc1"
    "applicationPools appc1 key \<noteq> None"
    "poolSessions appc1 = poolSessions appc"
    "calls appc1 = calls appc"
    "queue appc1 = queue appc" "errorLog appc1 = errorLog appc"
    "persists appc1 = persists appc"
    "timeReads appc1 =
       (if \<exists>b. map_of (poolSessions appc key) (UID (sessionHeap appc a)) = Some b
                \<and> DeletionTimestamp (sessionHeap appc b) = None
        then Suc (timeReads appc) else timeReads appc)"
    "\<And>b. sessionHeap appc1 b =
       (if map_of (poolSessions appc key) (UID (sessionHeap appc a)) = Some b
           \<and> DeletionTimestamp (sessionHeap appc b) = None
        then (sessionHeap appc b)\<lparr>DeletionTimestamp := Some (currentTime env (timeReads appc))\<rparr>
        else sessionHeap appc b)"
proof -
  obtain pool appc0 where g: "getOrCreateApplicationPool key appc = (pool, appc0)"
    by (cases "getOrCreateApplicationPool key appc")
  then have s0: "appc0 = snd (getOrCreateApplicationPool key appc)"
    and p0: "pool = fst (getOrCreateApplicationPool key appc)" by simp_all
  have pres: "applicationPools appc0 key \<noteq> None"
    by (simp add: s0 pools_getOrCreateApplicationPool)
  have gs: "getSession pool uid = map_of (poolSessions appc key) uid" for uid
    by (simp add: getSession_def p0 sessions_getOrCreateApplicationPool)
  have f0: "sessionHeap appc0 = sessionHeap appc" "timeReads appc0 = timeReads appc"
    "calls appc0 = calls appc" "queue appc0 = queue appc" "errorLog appc0 = errorLog appc"
    "poolSessions appc0 = poolSessions appc" "persists appc0 = persists appc"
    by (simp_all add: s0)
  show thesis
  proof (rule that [of "updateSessionPool env key a deleted appc"])
    show "applicationPools (updateSessionPool env key a deleted appc) key \<noteq> None"
      using assms pres
      by (simp add: updateSessionPool_def Let_def g NewCurrentMetaTime_def split: option.splits)
    show "sessionHeap (updateSessionPool env key a deleted appc) b =
       (if map_of (poolSessions appc key) (UID (sessionHeap appc a)) = Some b
           \<and> DeletionTimestamp (sessionHeap appc b) = None
        then (sessionHeap appc b)\<lparr>DeletionTimestamp := Some (currentTime env (timeReads appc))\<rparr>
        else sessionHeap appc b)" for b
      using assms
      by (auto simp: updateSessionPool_def Let_def g NewCurrentMetaTime_def gs [symmetric] f0
          split: option.splits)
    show "timeReads (updateSessionPool env key a deleted appc) =
       (if \<exists>b. map_of (poolSessions appc key) (UID (sessionHeap appc a)) = Some b
                \<and> DeletionTimestamp (sessionHeap appc b) = None
        then Suc (timeReads appc) else timeReads appc)"
      using assms
      by (auto simp: updateSessionPool_def Let_def g NewCurrentMetaTime_def gs [symmetric] f0
          split: option.splits)
  qed (use assms in \<open>simp_all add: updateSessionPool_def Let_def g NewCurrentMetaTime_def f0
          split: option.splits\<close>)
qed


lemma poolSessions_modifyPool_other:
  "key' \<noteq> key \<Longrightarrow> poolSessions (modifyPool key f appc) key' = poolSessions appc key'"
  by (simp add: poolSessions_def pools_modifyPool)

lemma poolSessions_updateSessionPool:
  "poolSessions (updateSessionPool env key a deleted appc) key' =
     (if key' \<noteq> key then poolSessions appc key'
      else if SessionInTerminalState (sessionHeap appc a)
      then AList.delete (UID (sessionHeap appc a)) (poolSessions appc key)
      else if deleted then poolSessions appc key
      else AList.update (UID (sessionHeap appc a)) a (poolSessions appc key))"
proof (cases "SessionInTerminalState (sessionHeap appc a)")
  case True
  from updateSessionPool_terminal [OF True, of env key deleted] obtain appc1 where
    "updateSessionPool env key a deleted appc
       = modifyPool key (deleteSession (UID (sessionHeap appc a))) appc1"
    "poolSessions appc1 = poolSessions appc" by metis
  with True show ?thesis by (simp add: poolSessions_modifyPool_delete)
next
  case False
  show ?thesis
  proof (cases deleted)
    case True
    from updateSessionPool_stamp [OF False True, of env key] obtain appc1 where
      "updateSessionPool env key a deleted appc = appc1" "poolSessions appc1 = poolSessions appc"
      by metis
    with False True show ?thesis by simp
  next
    case d: False
    from updateSessionPool_insert [OF False d, of env key] obtain appc1 where
      "updateSessionPool env key a deleted appc
         = modifyPool key (addSession (UID (sessionHeap appc a)) a) appc1"
      "applicationPools appc1 key \<noteq> None" "poolSessions appc1 = poolSessions appc" by metis
    with False d show ?thesis by (simp add: poolSessions_modifyPool_add)
  qed
qed

lemma sessionHeap_updateSessionPool:
  "sessionHeap (updateSessionPool env key a deleted appc) b =
     (if \<not> SessionInTerminalState (sessionHeap appc a) \<and> deleted
         \<and> map_of (poolSessions appc key) (UID (sessionHeap appc a)) = Some b
         \<and> DeletionTimestamp (sessionHeap appc b) = None
      then (sessionHeap appc b)\<lparr>DeletionTimestamp := Some (currentTime env (timeReads appc))\<rparr>
      else sessionHeap appc b)"
proof (cases "SessionInTerminalState (sessionHeap appc a)")
  case True
  from updateSessionPool_terminal [OF True, of env key deleted] obtain appc1 where
    "updateSessionPool env key a deleted appc
       = modifyPool key (deleteSession (UID (sessionHeap appc a))) appc1"
    "sessionHeap appc1 = sessionHeap appc" by metis
  with True show ?thesis by simp
next
  case False
  show ?thesis
  proof (cases deleted)
    case True
    from updateSessionPool_stamp [OF False True, of env key] False True
    show ?thesis by metis
  next
    case d: False
    from updateSessionPool_insert [OF False d, of env key] obtain appc1 where
      "updateSessionPool env key a deleted appc
         = modifyPool key (addSession (UID (sessionHeap appc a)) a) appc1"
      "sessionHeap appc1 = sessionHeap appc" by metis
    with False d show ?thesis by simp
  qed
qed

lemma log_updateSessionPool [simp]:
  "calls (updateSessionPool env key a deleted appc) = calls appc"
  "queue (updateSessionPool env key a deleted appc) = queue appc"
  "errorLog (updateSessionPool env key a deleted appc) = errorLog appc"
  "persists (updateSessionPool env key a deleted appc) = persists appc"
proof -
  consider (t) "SessionInTerminalState (sessionHeap appc a)"
    | (s) "\<not> SessionInTerminalState (sessionHeap appc a)" "deleted"
    | (i) "\<not> SessionInTerminalState (sessionHeap appc a)" "\<not> deleted" by blast
  then have "calls (updateSessionPool env key a deleted appc) = calls appc
    \<and> queue (updateSessionPool env key a deleted appc) = queue appc
    \<and> errorLog (updateSessionPool env key a deleted appc) = errorLog appc
    \<and> persists (updateSessionPool env key a deleted appc) = persists appc"
  proof cases
    case t
    from updateSessionPool_terminal [OF t, of env key deleted] show ?thesis
      by (metis modifyPool_fields(3,4,5,6))
  next
    case s
    from updateSessionPool_stamp [OF s, of env key] show ?thesis by metis
  next
    case i
    from updateSessionPool_insert [OF i, of env key] show ?thesis
      by (metis modifyPool_fields(3,4,5,6))
  qed
  then show "calls (updateSessionPool env key a deleted appc) = calls appc"
    "queue (updateSessionPool env key a deleted appc) = queue appc"
    "errorLog (updateSessionPool env key a deleted appc) = errorLog appc"
    "persists (updateSessionPool env key a deleted appc) = persists appc" by simp_all
qed

lemma terminal_updateSessionPool:
  "SessionInTerminalState (sessionHeap (updateSessionPool env key a deleted appc) b)
     = SessionInTerminalState (sessionHeap appc b)"
  by (simp add: sessionHeap_updateSessionPool SessionInTerminalState_def)

lemma noTerminalSessionInPools_poolSessions:
  "noTerminalSessionInPools appc \<longleftrightarrow>
     (\<forall>key. \<forall>a \<in> snd ` set (poolSessions appc key).
        \<not> SessionInTerminalState (sessionHeap appc a))"
  unfolding noTerminalSessionInPools_def poolSessions_def sessionList_def ran_def
  by (auto split: option.splits) (metis snd_conv, metis)

lemma noTerminalSessionInPools_step:
  assumes "noTerminalSessionInPools appc"
  shows "noTerminalSessionInPools (updateSessionPool env key a deleted appc)"
  unfolding noTerminalSessionInPools_poolSessions
proof (intro allI ballI)
  fix key' b
  assume b: "b \<in> snd ` set (poolSessions (updateSessionPool env key a deleted appc) key')"
  have old: "\<And>k c. c \<in> snd ` set (poolSessions appc k)
      \<Longrightarrow> \<not> SessionInTerminalState (sessionHeap appc c)"
    using assms unfolding noTerminalSessionInPools_poolSessions by blast
  have "b \<in> snd ` set (poolSessions appc key')
        \<or> (b = a \<and> \<not> SessionInTerminalState (sessionHeap appc a))"
    using b snd_set_delete [of "UID (sessionHeap appc a)" "poolSessions appc key"]
      snd_set_update [of "UID (sessionHeap appc a)" a "poolSessions appc key"]
    by (auto simp: poolSessions_updateSessionPool split: if_splits)
  then show "\<not> SessionInTerminalState (sessionHeap (updateSessionPool env key a deleted appc) b)"
    using old by (auto simp: terminal_updateSessionPool)
qed

lemma noTerminalSessionInPools_events:
  "noTerminalSessionInPools appc \<Longrightarrow> noTerminalSessionInPools (applyPoolEvents env events appc)"
  unfolding applyPoolEvents_def
  by (induction events arbitrary: appc) (auto simp: noTerminalSessionInPools_step)


text \<open>
  C5. If no pool holds a session in a terminal state, then after any sequence of calls of
  \<^verbatim>\<open>updateSessionPool\<close> no pool does. A call with a session in a terminal state leaves no
  session under that uid in the pool of its application, and the uid is not in the session
  set of the pod that the session refers to, when the pool has that pod. Whatever a call
  adds to a pool is the session of the call, and that session is not in a terminal state.
\<close>

theorem updateSessionPool_terminal_never_pooled:
  "(noTerminalSessionInPools appc \<longrightarrow> noTerminalSessionInPools (applyPoolEvents env events appc))
   \<and> (SessionInTerminalState (sessionHeap appc a) \<longrightarrow>
        map_of (poolSessions (updateSessionPool env key a deleted appc) key)
          (UID (sessionHeap appc a)) = None
        \<and> (\<forall>pool name pod. applicationPools appc key = Some pool
              \<and> PodReference (Status (sessionHeap appc a)) = Some name
              \<and> getPod pool name = Some pod \<longrightarrow>
              UID (sessionHeap appc a)
                \<notin> podSessions (podHeap (updateSessionPool env key a deleted appc) pod)))
   \<and> (\<forall>key' uid b.
         map_of (poolSessions (updateSessionPool env key a deleted appc) key') uid = Some b
         \<and> map_of (poolSessions appc key') uid \<noteq> Some b \<longrightarrow>
         b = a \<and> \<not> SessionInTerminalState (sessionHeap appc a))"
proof (intro conjI impI allI)
  assume "noTerminalSessionInPools appc"
  then show "noTerminalSessionInPools (applyPoolEvents env events appc)"
    by (rule noTerminalSessionInPools_events)
next
  assume t: "SessionInTerminalState (sessionHeap appc a)"
  then show "map_of (poolSessions (updateSessionPool env key a deleted appc) key)
          (UID (sessionHeap appc a)) = None"
    by (simp add: poolSessions_updateSessionPool delete_conv')
next
  fix pool name pod
  assume t: "SessionInTerminalState (sessionHeap appc a)"
    and p: "applicationPools appc key = Some pool
              \<and> PodReference (Status (sessionHeap appc a)) = Some name
              \<and> getPod pool name = Some pod"
  from updateSessionPool_terminal [OF t, of env key deleted] p
  show "UID (sessionHeap appc a)
          \<notin> podSessions (podHeap (updateSessionPool env key a deleted appc) pod)"
    by (metis modifyPool_fields(2))
next
  fix key' uid b
  assume n: "map_of (poolSessions (updateSessionPool env key a deleted appc) key') uid = Some b
         \<and> map_of (poolSessions appc key') uid \<noteq> Some b"
  then show "b = a" "\<not> SessionInTerminalState (sessionHeap appc a)"
    by (auto simp: poolSessions_updateSessionPool update_conv' delete_conv' split: if_splits)
qed

lemma manager2_simps:
  "poolSessions manager2 key = []"
  "sessionHeap manager2 (Suc 0) = S3"
  "sessionHeap manager2 2 = S3closed"
  by (simp_all add: poolSessions_def manager2_def manager0_def)

theorem updateSessionPool_terminal_never_pooled_witness:
  "noTerminalSessionInPools manager2
   \<and> noTerminalSessionInPools
        (applyPoolEvents quiet [(''a/x'', 1, False), (''a/x'', 2, False)] manager2)
   \<and> map_of (poolSessions (updateSessionPool quiet ''a/x'' 1 False manager2) ''a/x'') ''u3''
        = Some 1
   \<and> SessionInTerminalState (sessionHeap (updateSessionPool quiet ''a/x'' 1 False manager2) 2)
   \<and> map_of (poolSessions
        (updateSessionPool quiet ''a/x'' 2 False
           (updateSessionPool quiet ''a/x'' 1 False manager2)) ''a/x'') ''u3'' = None"
proof -
  let ?st1 = "updateSessionPool quiet ''a/x'' 1 False manager2"
  have h: "noTerminalSessionInPools manager2"
    by (simp add: noTerminalSessionInPools_def manager2_def manager0_def)
  have s: "sessionHeap ?st1 2 = S3closed"
    by (simp add: sessionHeap_updateSessionPool manager2_simps)
  have t: "SessionInTerminalState (sessionHeap ?st1 2)"
    unfolding s by (simp add: S3closed_def SessionInTerminalState_def)
  have u: "UID (sessionHeap ?st1 2) = ''u3''"
    unfolding s by (simp add: S3closed_def S3_def)
  have p: "map_of (poolSessions ?st1 ''a/x'') ''u3'' = Some 1"
    by (simp add: poolSessions_updateSessionPool manager2_simps S3_def S1_def
        SessionInTerminalState_def)
  from updateSessionPool_terminal_never_pooled
         [of manager2 quiet "[(''a/x'', 1, False), (''a/x'', 2, False)]" 1 "''a/x''" False] h
  have i: "noTerminalSessionInPools
        (applyPoolEvents quiet [(''a/x'', 1, False), (''a/x'', 2, False)] manager2)"
    by blast
  from updateSessionPool_terminal_never_pooled [of ?st1 quiet "[]" 2 "''a/x''" False] t
  have n: "map_of (poolSessions (updateSessionPool quiet ''a/x'' 2 False ?st1) ''a/x'')
          ''u3'' = None"
    unfolding u by blast
  from h i p t n show ?thesis by blast
qed

section \<open>Session events\<close>

lemma getSessionApplicationKey_valid:
  "snd (getSessionApplicationKey s) = None
     \<Longrightarrow> getSessionApplicationKey s = (ApplicationName (Spec s), None)"
  by (auto simp: getSessionApplicationKey_def Let_def split: option.splits)

lemma getSessionApplicationKey_invalid:
  "snd (getSessionApplicationKey s) \<noteq> None \<Longrightarrow> fst (getSessionApplicationKey s) = []"
  by (auto simp: getSessionApplicationKey_def Let_def split: option.splits)

lemma getSessionApplicationKey_Spec:
  "Spec s' = Spec s \<Longrightarrow> getSessionApplicationKey s' = getSessionApplicationKey s"
  by (simp add: getSessionApplicationKey_def)

text \<open>
  The delete handler at a session whose application name is a valid key.
\<close>

lemma onApplicationSessionDeleteEvent_at_valid_key:
  assumes valid: "snd (getSessionApplicationKey (sessionHeap appc a)) = None"
  shows "DeletionTimestamp (sessionHeap (onApplicationSessionDeleteEvent env a appc) a)
           = Some (case DeletionTimestamp (sessionHeap appc a) of
                     Some t \<Rightarrow> t | None \<Rightarrow> currentTime env (timeReads appc))
     \<and> queue (onApplicationSessionDeleteEvent env a appc)
           = queue appc @ [ApplicationName (Spec (sessionHeap appc a))]
     \<and> (SessionInTerminalState (sessionHeap appc a) \<longrightarrow>
          poolSessions (onApplicationSessionDeleteEvent env a appc)
              (ApplicationName (Spec (sessionHeap appc a)))
            = AList.delete (UID (sessionHeap appc a))
                (poolSessions appc (ApplicationName (Spec (sessionHeap appc a)))))
     \<and> (\<not> SessionInTerminalState (sessionHeap appc a) \<longrightarrow>
          poolSessions (onApplicationSessionDeleteEvent env a appc)
              (ApplicationName (Spec (sessionHeap appc a)))
            = poolSessions appc (ApplicationName (Spec (sessionHeap appc a)))
          \<and> (\<forall>b. map_of (poolSessions appc (ApplicationName (Spec (sessionHeap appc a))))
                     (UID (sessionHeap appc a)) = Some b \<longrightarrow>
                   DeletionTimestamp (sessionHeap (onApplicationSessionDeleteEvent env a appc) b)
                     \<noteq> None))"
proof -
  let ?s = "sessionHeap appc a"
  let ?key = "ApplicationName (Spec ?s)"
  define appc1 where "appc1 =
     (if DeletionTimestamp ?s = None
      then appc\<lparr>timeReads := Suc (timeReads appc),
                sessionHeap := (sessionHeap appc)
                  (a := ?s\<lparr>DeletionTimestamp := Some (currentTime env (timeReads appc))\<rparr>)\<rparr>
      else appc)"
  have s1: "sessionHeap appc1 b =
      (if b = a \<and> DeletionTimestamp ?s = None
       then ?s\<lparr>DeletionTimestamp := Some (currentTime env (timeReads appc))\<rparr>
       else sessionHeap appc b)" for b
    by (simp add: appc1_def)
  have p1: "poolSessions appc1 = poolSessions appc" and q1: "queue appc1 = queue appc"
    by (simp_all add: appc1_def)
  have k1: "getSessionApplicationKey (sessionHeap appc1 a) = (?key, None)"
    using getSessionApplicationKey_valid [OF valid]
      getSessionApplicationKey_Spec [of "sessionHeap appc1 a" ?s] by (simp add: s1)
  have t1: "SessionInTerminalState (sessionHeap appc1 a) = SessionInTerminalState ?s"
    by (simp add: s1 SessionInTerminalState_def)
  have u1: "UID (sessionHeap appc1 a) = UID ?s" by (simp add: s1)
  have d1: "DeletionTimestamp (sessionHeap appc1 a)
      = Some (case DeletionTimestamp ?s of Some t \<Rightarrow> t | None \<Rightarrow> currentTime env (timeReads appc))"
    by (auto simp: s1)
  have k: "getSessionApplicationKey (?s\<lparr>DeletionTimestamp := x\<rparr>) = (?key, None)" for x
    using getSessionApplicationKey_valid [OF valid]
      getSessionApplicationKey_Spec [of "?s\<lparr>DeletionTimestamp := x\<rparr>" ?s] by simp
  have r: "onApplicationSessionDeleteEvent env a appc
      = enqueueApplication ?key (updateSessionPool env ?key a True appc1)"
    unfolding onApplicationSessionDeleteEvent_def appc1_def
    by (simp add: Let_def NewCurrentMetaTime_def k getSessionApplicationKey_valid [OF valid])
  have h: "sessionHeap (onApplicationSessionDeleteEvent env a appc)
      = sessionHeap (updateSessionPool env ?key a True appc1)"
    and p: "poolSessions (onApplicationSessionDeleteEvent env a appc)
      = poolSessions (updateSessionPool env ?key a True appc1)"
    and q: "queue (onApplicationSessionDeleteEvent env a appc) = queue appc @ [?key]"
    by (simp_all add: r enqueueApplication_def q1 poolSessions_def)
  show ?thesis
  proof (intro conjI impI allI)
    show "DeletionTimestamp (sessionHeap (onApplicationSessionDeleteEvent env a appc) a)
           = Some (case DeletionTimestamp ?s of
                     Some t \<Rightarrow> t | None \<Rightarrow> currentTime env (timeReads appc))"
      using d1 by (simp add: h sessionHeap_updateSessionPool)
    show "queue (onApplicationSessionDeleteEvent env a appc) = queue appc @ [?key]" by (rule q)
    show "poolSessions (onApplicationSessionDeleteEvent env a appc) ?key
            = AList.delete (UID ?s) (poolSessions appc ?key)"
      if "SessionInTerminalState ?s"
      using that by (simp add: p poolSessions_updateSessionPool t1 u1 p1)
    show "poolSessions (onApplicationSessionDeleteEvent env a appc) ?key = poolSessions appc ?key"
      if "\<not> SessionInTerminalState ?s"
      using that by (simp add: p poolSessions_updateSessionPool t1 u1 p1)
    show "DeletionTimestamp (sessionHeap (onApplicationSessionDeleteEvent env a appc) b) \<noteq> None"
      if "\<not> SessionInTerminalState ?s" "map_of (poolSessions appc ?key) (UID ?s) = Some b" for b
      using that by (simp add: h sessionHeap_updateSessionPool t1 u1 p1)
  qed
qed

lemma poolSessions_manager0 [simp]: "poolSessions manager0 key = []"
  by (simp add: poolSessions_def manager0_def)

lemma sessionHeap_manager0 [simp]: "sessionHeap manager0 a = S1"
  by (simp add: manager0_def)

lemma logs_manager0 [simp]:
  "queue manager0 = []" "calls manager0 = []" "errorLog manager0 = []" "timeReads manager0 = 0"
  by (simp_all add: manager0_def)

lemma timeReads_updateSessionPool:
  "timeReads (updateSessionPool env key a deleted appc) =
     (if \<not> SessionInTerminalState (sessionHeap appc a) \<and> deleted
         \<and> (\<exists>b. map_of (poolSessions appc key) (UID (sessionHeap appc a)) = Some b
                \<and> DeletionTimestamp (sessionHeap appc b) = None)
      then Suc (timeReads appc) else timeReads appc)"
proof -
  consider (t) "SessionInTerminalState (sessionHeap appc a)"
    | (s) "\<not> SessionInTerminalState (sessionHeap appc a)" "deleted"
    | (i) "\<not> SessionInTerminalState (sessionHeap appc a)" "\<not> deleted" by blast
  then show ?thesis
  proof cases
    case t
    from updateSessionPool_terminal [OF t, of env key deleted] t show ?thesis
      by (metis modifyPool_fields(7))
  next
    case s
    from updateSessionPool_stamp [OF s, of env key] obtain appc1 where
      "updateSessionPool env key a deleted appc = appc1"
      "timeReads appc1 =
       (if \<exists>b. map_of (poolSessions appc key) (UID (sessionHeap appc a)) = Some b
                \<and> DeletionTimestamp (sessionHeap appc b) = None
        then Suc (timeReads appc) else timeReads appc)" by metis
    with s show ?thesis by simp
  next
    case i
    from updateSessionPool_insert [OF i, of env key] i show ?thesis
      by (metis modifyPool_fields(7))
  qed
qed

lemma added_S1_simps:
  "sessionHeap (onApplicationSessionAddEvent quiet 0 manager0) a = S1"
  "queue (onApplicationSessionAddEvent quiet 0 manager0) = [''a/x'']"
  "poolSessions (onApplicationSessionAddEvent quiet 0 manager0) ''a/x'' = [(''u1'', 0)]"
  "timeReads (onApplicationSessionAddEvent quiet 0 manager0) = 0"
  by (simp_all add: onApplicationSessionAddEvent_def
      getSessionApplicationKey_def SplitMetaNamespaceKey_def Let_def
      poolSessions_updateSessionPool sessionHeap_updateSessionPool timeReads_updateSessionPool
      enqueueApplication_def SessionInTerminalState_def S1_def)

text \<open>The delete handler sets the deletion timestamp before it looks at the key.\<close>

lemma onApplicationSessionDeleteEvent_stamps:
  "DeletionTimestamp (sessionHeap (onApplicationSessionDeleteEvent env a appc) a)
     = Some (case DeletionTimestamp (sessionHeap appc a) of
               Some t \<Rightarrow> t | None \<Rightarrow> currentTime env (timeReads appc))"
proof (cases "snd (getSessionApplicationKey (sessionHeap appc a))")
  case None
  from onApplicationSessionDeleteEvent_at_valid_key [OF None] show ?thesis by blast
next
  case (Some e)
  then obtain key0 where k0: "getSessionApplicationKey (sessionHeap appc a) = (key0, Some e)"
    by (cases "getSessionApplicationKey (sessionHeap appc a)") simp
  have k: "getSessionApplicationKey ((sessionHeap appc a)\<lparr>DeletionTimestamp := x\<rparr>)
      = (key0, Some e)" for x
    using getSessionApplicationKey_Spec
      [of "(sessionHeap appc a)\<lparr>DeletionTimestamp := x\<rparr>" "sessionHeap appc a"]
    by (simp add: k0)
  show ?thesis
    unfolding onApplicationSessionDeleteEvent_def
    by (cases "DeletionTimestamp (sessionHeap appc a)")
       (simp_all add: Let_def NewCurrentMetaTime_def k k0 logError_def)
qed

text \<open>The delete handler at a session whose application name is not a valid key.\<close>

lemma onApplicationSessionDeleteEvent_at_invalid_key:
  assumes "snd (getSessionApplicationKey (sessionHeap appc a)) \<noteq> None"
  shows "queue (onApplicationSessionDeleteEvent env a appc) = queue appc"
    and "applicationPools (onApplicationSessionDeleteEvent env a appc) = applicationPools appc"
    and "errorLog (onApplicationSessionDeleteEvent env a appc)
           = errorLog appc @ [''Session application label:''
                 @ ApplicationName (Spec (sessionHeap appc a))
                 @ '' is not valid meta namespace key'']"
proof -
  let ?msg = "''Session application label:'' @ ApplicationName (Spec (sessionHeap appc a))
                 @ '' is not valid meta namespace key''"
  have k0: "getSessionApplicationKey (sessionHeap appc a) = ([], Some ?msg)"
    using assms by (auto simp: getSessionApplicationKey_def Let_def split: option.splits)
  have k: "getSessionApplicationKey ((sessionHeap appc a)\<lparr>DeletionTimestamp := x\<rparr>)
      = ([], Some ?msg)" for x
    using getSessionApplicationKey_Spec
      [of "(sessionHeap appc a)\<lparr>DeletionTimestamp := x\<rparr>" "sessionHeap appc a"]
    by (simp add: k0)
  show "queue (onApplicationSessionDeleteEvent env a appc) = queue appc"
    unfolding onApplicationSessionDeleteEvent_def
    by (cases "DeletionTimestamp (sessionHeap appc a)")
       (simp_all add: Let_def NewCurrentMetaTime_def k k0 logError_def)
  show "applicationPools (onApplicationSessionDeleteEvent env a appc) = applicationPools appc"
    unfolding onApplicationSessionDeleteEvent_def
    by (cases "DeletionTimestamp (sessionHeap appc a)")
       (simp_all add: Let_def NewCurrentMetaTime_def k k0 logError_def)
  show "errorLog (onApplicationSessionDeleteEvent env a appc) = errorLog appc @ [?msg]"
    unfolding onApplicationSessionDeleteEvent_def
    by (cases "DeletionTimestamp (sessionHeap appc a)")
       (simp_all add: Let_def NewCurrentMetaTime_def k k0 logError_def)
qed

text \<open>
  C4, as amended. For every session-delete event the handler sets the deletion timestamp
  of the session, to the current time if it had none. If the application name of the
  session is a valid key, the handler enqueues the application; if the status of the
  session is terminal, no session is left under its uid in the pool; if it is not, the
  pool keeps its sessions, and the cached session under that uid has a deletion timestamp
  afterwards. If the name is not a valid key, the handler logs the error, changes no pool
  and enqueues nothing.
\<close>

theorem onApplicationSessionDeleteEvent_effect:
  "DeletionTimestamp (sessionHeap (onApplicationSessionDeleteEvent env a appc) a)
     = Some (case DeletionTimestamp (sessionHeap appc a) of
               Some t \<Rightarrow> t | None \<Rightarrow> currentTime env (timeReads appc))
   \<and> (snd (getSessionApplicationKey (sessionHeap appc a)) = None \<longrightarrow>
        queue (onApplicationSessionDeleteEvent env a appc)
           = queue appc @ [ApplicationName (Spec (sessionHeap appc a))]
        \<and> (SessionInTerminalState (sessionHeap appc a) \<longrightarrow>
             poolSessions (onApplicationSessionDeleteEvent env a appc)
                 (ApplicationName (Spec (sessionHeap appc a)))
               = AList.delete (UID (sessionHeap appc a))
                   (poolSessions appc (ApplicationName (Spec (sessionHeap appc a)))))
        \<and> (\<not> SessionInTerminalState (sessionHeap appc a) \<longrightarrow>
             poolSessions (onApplicationSessionDeleteEvent env a appc)
                 (ApplicationName (Spec (sessionHeap appc a)))
               = poolSessions appc (ApplicationName (Spec (sessionHeap appc a)))
             \<and> (\<forall>b. map_of (poolSessions appc (ApplicationName (Spec (sessionHeap appc a))))
                        (UID (sessionHeap appc a)) = Some b \<longrightarrow>
                      DeletionTimestamp
                        (sessionHeap (onApplicationSessionDeleteEvent env a appc) b) \<noteq> None)))
   \<and> (snd (getSessionApplicationKey (sessionHeap appc a)) \<noteq> None \<longrightarrow>
        queue (onApplicationSessionDeleteEvent env a appc) = queue appc
        \<and> applicationPools (onApplicationSessionDeleteEvent env a appc) = applicationPools appc
        \<and> errorLog (onApplicationSessionDeleteEvent env a appc)
             = errorLog appc @ [''Session application label:''
                   @ ApplicationName (Spec (sessionHeap appc a))
                   @ '' is not valid meta namespace key''])"
  using onApplicationSessionDeleteEvent_stamps [of env a appc]
    onApplicationSessionDeleteEvent_at_valid_key [of appc a env]
    onApplicationSessionDeleteEvent_at_invalid_key [of appc a env]
  by blast

text \<open>
  C4, as stated, fails twice. The pending session \<open>S1\<close> is added and then deleted: after
  the delete event the pool of \<^verbatim>\<open>a/x\<close> still holds the session, which is still pending.
  And a delete event for the session with the application name \<^verbatim>\<open>a/x/y\<close> enqueues
  nothing.
\<close>

theorem onApplicationSessionDeleteEvent_keeps_pending_session:
  "poolSessions (onApplicationSessionDeleteEvent quiet 0
       (onApplicationSessionAddEvent quiet 0 manager0)) ''a/x'' = [(''u1'', 0)]
   \<and> SessionStatus (Status (sessionHeap (onApplicationSessionDeleteEvent quiet 0
       (onApplicationSessionAddEvent quiet 0 manager0)) 0)) = SessionStatusPending
   \<and> queue (onApplicationSessionDeleteEvent quiet 0 manager3) = []"
proof -
  have "snd (getSessionApplicationKey (sessionHeap manager3 0)) \<noteq> None"
    by (simp add: manager3_def getSessionApplicationKey_def SplitMetaNamespaceKey_def
        badKeySession_def S1_def)
  from onApplicationSessionDeleteEvent_at_invalid_key(1) [OF this, of quiet]
  have "queue (onApplicationSessionDeleteEvent quiet 0 manager3) = []"
    by (simp add: manager3_def manager0_def)
  then show ?thesis
    by (simp add: onApplicationSessionDeleteEvent_def onApplicationSessionAddEvent_def
        getSessionApplicationKey_def SplitMetaNamespaceKey_def Let_def
        poolSessions_updateSessionPool sessionHeap_updateSessionPool enqueueApplication_def
        NewCurrentMetaTime_def SessionInTerminalState_def S1_def)
qed

lemma currentTime_quiet: "currentTime quiet n = 100 + int n"
  by (simp add: quiet_def)

theorem onApplicationSessionDeleteEvent_effect_witness:
  "DeletionTimestamp
        (sessionHeap (onApplicationSessionDeleteEvent quiet 0
           (onApplicationSessionAddEvent quiet 0 manager0)) 0) = Some 100
   \<and> queue (onApplicationSessionDeleteEvent quiet 0
        (onApplicationSessionAddEvent quiet 0 manager0)) = [''a/x'', ''a/x'']
   \<and> poolSessions (onApplicationSessionDeleteEvent quiet 0
        (onApplicationSessionAddEvent quiet 0 manager0)) ''a/x'' = [(''u1'', 0)]
   \<and> poolSessions (onApplicationSessionDeleteEvent quiet 2
        (updateSessionPool quiet ''a/x'' 1 False manager2)) ''a/x'' = []
   \<and> DeletionTimestamp (sessionHeap (onApplicationSessionDeleteEvent quiet 0 manager3) 0)
        = Some 100
   \<and> queue (onApplicationSessionDeleteEvent quiet 0 manager3) = []
   \<and> applicationPools (onApplicationSessionDeleteEvent quiet 0 manager3) = Map.empty
   \<and> errorLog (onApplicationSessionDeleteEvent quiet 0 manager3)
        = [''Session application label:a/x/y is not valid meta namespace key'']"
proof -
  let ?st = "onApplicationSessionAddEvent quiet 0 manager0"
  let ?st1 = "updateSessionPool quiet ''a/x'' (Suc 0) False manager2"
  have v: "snd (getSessionApplicationKey (sessionHeap ?st 0)) = None"
    unfolding added_S1_simps
    by (simp add: getSessionApplicationKey_def SplitMetaNamespaceKey_def S1_def)
  have n: "\<not> SessionInTerminalState (sessionHeap ?st 0)"
    unfolding added_S1_simps by (simp add: SessionInTerminalState_def S1_def)
  from onApplicationSessionDeleteEvent_effect [of quiet 0 ?st] v n
  have 1: "DeletionTimestamp (sessionHeap (onApplicationSessionDeleteEvent quiet 0 ?st) 0)
        = Some 100
      \<and> queue (onApplicationSessionDeleteEvent quiet 0 ?st) = [''a/x'', ''a/x'']
      \<and> poolSessions (onApplicationSessionDeleteEvent quiet 0 ?st) ''a/x'' = [(''u1'', 0)]"
    by (simp add: added_S1_simps S1_def currentTime_quiet)
  have s: "sessionHeap ?st1 2 = S3closed"
    by (simp add: sessionHeap_updateSessionPool manager2_simps)
  have p: "poolSessions ?st1 ''a/x'' = [(''u3'', Suc 0)]"
    by (simp add: poolSessions_updateSessionPool manager2_simps S3_def S1_def
        SessionInTerminalState_def)
  have v2: "snd (getSessionApplicationKey (sessionHeap ?st1 2)) = None"
    unfolding s
    by (simp add: getSessionApplicationKey_def SplitMetaNamespaceKey_def S3closed_def S3_def
        S1_def)
  have t2: "SessionInTerminalState (sessionHeap ?st1 2)"
    unfolding s by (simp add: S3closed_def SessionInTerminalState_def)
  from onApplicationSessionDeleteEvent_effect [of quiet 2 ?st1] v2 t2
  have 2: "poolSessions (onApplicationSessionDeleteEvent quiet 2 ?st1) ''a/x'' = []"
    by (simp add: s p S3closed_def S3_def S1_def)
  have m: "sessionHeap manager3 0 = badKeySession" "queue manager3 = []"
    "applicationPools manager3 = Map.empty" "errorLog manager3 = []" "timeReads manager3 = 0"
    by (simp_all add: manager3_def manager0_def)
  have v3: "snd (getSessionApplicationKey (sessionHeap manager3 0)) \<noteq> None"
    unfolding m
    by (simp add: getSessionApplicationKey_def SplitMetaNamespaceKey_def badKeySession_def
        S1_def)
  from onApplicationSessionDeleteEvent_effect [of quiet 0 manager3] v3
  have 3: "DeletionTimestamp (sessionHeap (onApplicationSessionDeleteEvent quiet 0 manager3) 0)
        = Some 100
      \<and> queue (onApplicationSessionDeleteEvent quiet 0 manager3) = []
      \<and> applicationPools (onApplicationSessionDeleteEvent quiet 0 manager3) = Map.empty
      \<and> errorLog (onApplicationSessionDeleteEvent quiet 0 manager3)
          = [''Session application label:a/x/y is not valid meta namespace key'']"
    unfolding m by (simp add: badKeySession_def S1_def currentTime_quiet)
  from 1 2 3 show ?thesis by simp
qed

text \<open>
  C3, at a pending session with the application name \<^verbatim>\<open>a/x/y\<close>. The claim asks that the
  session enters no pool and that no application is enqueued. The handler logs the error
  and goes on: the session is in the pool of the empty key, and the empty key is enqueued.
\<close>

theorem onApplicationSessionAddEvent_bad_key:
  "snd (getSessionApplicationKey (sessionHeap manager3 0)) \<noteq> None
   \<and> poolSessions (onApplicationSessionAddEvent quiet 0 manager3) [] = [(''u1'', 0)]
   \<and> queue (onApplicationSessionAddEvent quiet 0 manager3) = ['''']
   \<and> errorLog (onApplicationSessionAddEvent quiet 0 manager3)
       = [''Session application label:a/x/y is not valid meta namespace key'']"
proof -
  have m: "sessionHeap manager3 a = badKeySession" "poolSessions manager3 key = []"
    "queue manager3 = []" "errorLog manager3 = []" for a key
    by (simp_all add: manager3_def manager0_def poolSessions_def)
  have k: "getSessionApplicationKey badKeySession
      = ([], Some ''Session application label:a/x/y is not valid meta namespace key'')"
    by (simp add: getSessionApplicationKey_def SplitMetaNamespaceKey_def badKeySession_def S1_def)
  have o: "\<not> SessionIsOpen badKeySession" "\<not> SessionInTerminalState badKeySession"
    "DeletionTimestamp badKeySession = None" "UID badKeySession = ''u1''"
    by (simp_all add: SessionIsOpen_def SessionInTerminalState_def badKeySession_def S1_def)
  show ?thesis
    by (simp add: onApplicationSessionAddEvent_def Let_def m k o logError_def
        enqueueApplication_def poolSessions_updateSessionPool)
qed

section \<open>Session events from a node\<close>

lemma terminatedPods_append [simp]:
  "terminatedPods (xs @ ys) = terminatedPods xs @ terminatedPods ys"
  by (induction xs rule: terminatedPods.induct) simp_all

lemma Spec_updateSessionPool [simp]:
  "Spec (sessionHeap (updateSessionPool env key a deleted appc) b) = Spec (sessionHeap appc b)"
  by (simp add: sessionHeap_updateSessionPool)

lemma closeApplicationSession_frame [simp]:
  "terminatedPods (calls (snd (closeApplicationSession env a appc))) = terminatedPods (calls appc)"
  "Spec (sessionHeap (snd (closeApplicationSession env a appc)) b) = Spec (sessionHeap appc b)"
  "applicationPools (snd (closeApplicationSession env a appc)) = applicationPools appc"
  "queue (snd (closeApplicationSession env a appc)) = queue appc"
  "errorLog (snd (closeApplicationSession env a appc)) = errorLog appc"
  by (simp_all add: closeApplicationSession_def changeSessionStatus_def Let_def
      split: option.splits)

lemma onApplicationSessionDeleteEvent_frame [simp]:
  "calls (onApplicationSessionDeleteEvent env a appc) = calls appc"
  "Spec (sessionHeap (onApplicationSessionDeleteEvent env a appc) b) = Spec (sessionHeap appc b)"
  by (simp_all add: onApplicationSessionDeleteEvent_def Let_def split_def NewCurrentMetaTime_def
      logError_def enqueueApplication_def split: option.splits)

lemma onApplicationSessionAddEvent_frame [simp]:
  "terminatedPods (calls (onApplicationSessionAddEvent env a appc)) = terminatedPods (calls appc)"
  "Spec (sessionHeap (onApplicationSessionAddEvent env a appc) b) = Spec (sessionHeap appc b)"
  by (simp_all add: onApplicationSessionAddEvent_def Let_def split_def
      logError_def enqueueApplication_def split: option.splits)

lemma onApplicationSessionUpdateEvent_frame [simp]:
  "terminatedPods (calls (onApplicationSessionUpdateEvent env old cur appc))
     = terminatedPods (calls appc)"
  "Spec (sessionHeap (onApplicationSessionUpdateEvent env old cur appc) b)
     = Spec (sessionHeap appc b)"
  by (simp_all add: onApplicationSessionUpdateEvent_def Let_def split_def
      logError_def enqueueApplication_def split: option.splits)

text \<open>
  Where the application of the session has a pool, \<^verbatim>\<open>onSessionEventFromNode\<close> returns,
  and it asks for the termination of the pod exactly if the reported status is Closed, the
  session asks for it and the pod is not terminated, with or without a cached session.
\<close>

lemma onSessionEventFromNode_with_pool:
  assumes "applicationPools appc (ApplicationName (Spec (sessionHeap appc a))) \<noteq> None"
  shows "\<exists>appc'. onSessionEventFromNode env PodNotTerminated pod a appc = Inr appc'
     \<and> terminatedPods (calls appc') =
         terminatedPods (calls appc)
         @ (if KillInstanceWhenSessionClosed (Spec (sessionHeap appc a))
               \<and> SessionStatus (Status (sessionHeap appc a)) = SessionStatusClosed
               \<and> PodNotTerminated pod
            then [pod] else [])"
  using assms
  by (auto simp: onSessionEventFromNode_def getApplicationPool_def Let_def
      split: option.splits)

text \<open>
  C9, at a node event for an application that has no pool. The session \<open>S3closed\<close> is
  reported Closed and asks for its pod to be killed, and the pod is not terminated, so the
  claim asks for \<^verbatim>\<open>TerminatePod\<close>. The function panics before it gets there.
\<close>

theorem onSessionEventFromNode_without_pool:
  "KillInstanceWhenSessionClosed (Spec (sessionHeap manager2 2))
   \<and> SessionStatus (Status (sessionHeap manager2 2)) = SessionStatusClosed
   \<and> onSessionEventFromNode quiet (\<lambda>pod. True) P1 2 manager2 = Inl NilPointerDereference"
  by (simp add: onSessionEventFromNode_def getApplicationPool_def Let_def manager2_def
      manager0_def S3closed_def S3_def S1_def)

section \<open>The bind phase\<close>

lemma openSessionCalls_append [simp]:
  "openSessionCalls (xs @ ys) = openSessionCalls xs @ openSessionCalls ys"
  by (induction xs rule: openSessionCalls.induct) simp_all

lemma offeredSessions_simps [simp]:
  "offeredSessions (xs @ ys) = offeredSessions xs @ offeredSessions ys"
  "offeredSessions [] = []"
  "offeredSessions [FindPod name] = []"
  by (simp_all add: offeredSessions_def)

lemma attemptsChain_earlier:
  "attemptsChain k' si tr \<Longrightarrow> k \<le> k' \<Longrightarrow> attemptsChain k si tr"
  by (cases tr) auto

lemma bindSessionToPod_frame:
  "podHeap (snd (bindSessionToPod env key pod a appc)) = podHeap appc"
  "UID (sessionHeap (snd (bindSessionToPod env key pod a appc)) x) = UID (sessionHeap appc x)"
  "offeredSessions (calls (snd (bindSessionToPod env key pod a appc)))
     = offeredSessions (calls appc) @ [UID (sessionHeap appc a)]"
  by (simp_all add: bindSessionToPod_def offeredSessions_def Let_def split: option.splits)


lemma attemptOk_earlier_start:
  assumes "attemptOk idle pend appc2 appc' t"
    and "\<And>x. podSessions (podHeap appc x) \<subseteq> podSessions (podHeap appc2 x)"
    and "\<And>x. UID (sessionHeap appc2 x) = UID (sessionHeap appc x)"
  shows "attemptOk idle pend appc appc' t"
  using assms by (cases t) (auto simp: attemptOk_def)

text \<open>
  The loop from the pod at position \<open>k\<close> on, with the candidate \<open>si\<close>: it returns, and
  \<open>new\<close> are the attempts it adds.
\<close>

lemma bindLoop_run:
  assumes "si \<le> length pend"
  shows "\<exists>si' errs' new appc'.
      bindLoop env key pend (drop k idle) k si errs tr appc = Inr (si', errs', tr @ new, appc')
    \<and> attemptsChain k si new
    \<and> si' = si + length (filter succeeded new) \<and> si' \<le> length pend
    \<and> length errs' = length errs + length (filter (\<lambda>t. \<not> succeeded t) new)
    \<and> offeredSessions (calls appc')
        = offeredSessions (calls appc)
          @ map (\<lambda>t. UID (sessionHeap appc (pend ! fst (snd t)))) new
    \<and> (\<forall>x. podSessions (podHeap appc x) \<subseteq> podSessions (podHeap appc' x))
    \<and> (\<forall>x. UID (sessionHeap appc' x) = UID (sessionHeap appc x))
    \<and> list_all (attemptOk idle pend appc appc') new
    \<and> noRebind idle new"
  using assms
proof (induction "length idle - k" arbitrary: k si errs tr appc)
  case 0
  then have "drop k idle = []" by simp
  with "0.prems" show ?case by simp
next
  case (Suc n)
  from Suc.hyps(2) have kl: "k < length idle" and n: "n = length idle - Suc k" by simp_all
  have d: "drop k idle = idle ! k # drop (Suc k) idle"
    using kl by (simp add: Cons_nth_drop_Suc)
  let ?rp = "idle ! k"
  let ?appc1 = "appc\<lparr>calls := calls appc @ [FindPod (podName (podHeap appc ?rp))]\<rparr>"
  note IH = Suc.hyps(1) [OF n]
  have skip: ?case
    if eq: "bindLoop env key pend (drop k idle) k si errs tr appc
            = bindLoop env key pend (drop (Suc k) idle) (Suc k) si errs tr ?appc1"
  proof -
    from IH [OF Suc.prems, of errs tr ?appc1] obtain si' errs' new appc' where
      r: "bindLoop env key pend (drop (Suc k) idle) (Suc k) si errs tr ?appc1
            = Inr (si', errs', tr @ new, appc')"
      and c: "attemptsChain (Suc k) si new"
      and rest: "si' = si + length (filter succeeded new)" "si' \<le> length pend"
        "length errs' = length errs + length (filter (\<lambda>t. \<not> succeeded t) new)"
        "offeredSessions (calls appc')
           = offeredSessions (calls ?appc1)
             @ map (\<lambda>t. UID (sessionHeap ?appc1 (pend ! fst (snd t)))) new"
        "\<forall>x. podSessions (podHeap ?appc1 x) \<subseteq> podSessions (podHeap appc' x)"
        "\<forall>x. UID (sessionHeap appc' x) = UID (sessionHeap ?appc1 x)"
        "list_all (attemptOk idle pend ?appc1 appc') new"
        "noRebind idle new"
      by blast
    have ok: "list_all (attemptOk idle pend appc appc') new"
      using rest(7) by (simp add: attemptOk_def list_all_iff)
    from attemptsChain_earlier [OF c, of k] have c': "attemptsChain k si new" by simp
    show ?thesis
      apply (rule exI [of _ si'], rule exI [of _ errs'], rule exI [of _ new],
          rule exI [of _ appc'])
      using r c' rest ok by (simp add: eq offeredSessions_def)
  qed
  show ?case
  proof (cases "findPod env (calls appc) (podName (podHeap appc ?rp))")
    case None
    show ?thesis by (rule skip) (simp add: d None Let_def)
  next
    case (Some p)
    show ?thesis
    proof (cases "podSessions (podHeap appc ?rp) = {}")
      case False
      show ?thesis by (rule skip) (simp add: d Some False Let_def)
    next
      case True
      show ?thesis
      proof (cases "si = length pend")
        case stop: True
        have "bindLoop env key pend (drop k idle) k si errs tr appc = Inr (si, errs, tr, ?appc1)"
          by (simp add: d Some True stop Let_def)
        then show ?thesis using stop by simp
      next
        case go: False
        with Suc.prems have sl: "si < length pend" by simp
        obtain e appc2 where b: "bindSessionToPod env key p (pend ! si) ?appc1 = (e, appc2)"
          by (cases "bindSessionToPod env key p (pend ! si) ?appc1")
        then have a2: "appc2 = snd (bindSessionToPod env key p (pend ! si) ?appc1)" by simp
        have f2: "podHeap appc2 = podHeap appc"
          "\<And>x. UID (sessionHeap appc2 x) = UID (sessionHeap appc x)"
          "offeredSessions (calls appc2)
             = offeredSessions (calls appc) @ [UID (sessionHeap appc (pend ! si))]"
          by (simp_all add: a2 bindSessionToPod_frame)
        show ?thesis
        proof (cases e)
          case (Some err)
          let ?appc3 = "logError err appc2"
          have eq: "bindLoop env key pend (drop k idle) k si errs tr appc
              = bindLoop env key pend (drop (Suc k) idle) (Suc k) si (errs @ [err])
                  (tr @ [(k, si, False)]) ?appc3"
            using sl by (simp add: d \<open>findPod env (calls appc) (podName (podHeap appc ?rp)) = Some p\<close>
                True go Let_def b Some)
          from IH [OF Suc.prems, of "errs @ [err]" "tr @ [(k, si, False)]" ?appc3]
          obtain si' errs' new appc' where
            r: "bindLoop env key pend (drop (Suc k) idle) (Suc k) si (errs @ [err])
                  (tr @ [(k, si, False)]) ?appc3
                = Inr (si', errs', (tr @ [(k, si, False)]) @ new, appc')"
            and c: "attemptsChain (Suc k) si new"
            and rest: "si' = si + length (filter succeeded new)" "si' \<le> length pend"
              "length errs' = length (errs @ [err]) + length (filter (\<lambda>t. \<not> succeeded t) new)"
              "offeredSessions (calls appc')
                 = offeredSessions (calls ?appc3)
                   @ map (\<lambda>t. UID (sessionHeap ?appc3 (pend ! fst (snd t)))) new"
              "\<forall>x. podSessions (podHeap ?appc3 x) \<subseteq> podSessions (podHeap appc' x)"
              "\<forall>x. UID (sessionHeap appc' x) = UID (sessionHeap ?appc3 x)"
              "list_all (attemptOk idle pend ?appc3 appc') new"
              "noRebind idle new"
            by blast
          have f3: "podHeap ?appc3 = podHeap appc"
            "\<And>x. UID (sessionHeap ?appc3 x) = UID (sessionHeap appc x)"
            "offeredSessions (calls ?appc3)
               = offeredSessions (calls appc) @ [UID (sessionHeap appc (pend ! si))]"
            using f2 by (simp_all add: logError_def)
          have ok: "list_all (attemptOk idle pend appc appc') new"
            using rest(7) f3 by (simp add: attemptOk_def list_all_iff)
          have hd: "attemptOk idle pend appc appc' (k, si, False)"
            using kl sl True by (simp add: attemptOk_def)
          show ?thesis
            apply (rule exI [of _ si'], rule exI [of _ errs'],
                rule exI [of _ "(k, si, False) # new"], rule exI [of _ appc'])
            using r c rest ok hd f3 by (simp add: eq succeeded_def)
        next
          case None
          let ?uid = "UID (sessionHeap appc2 (pend ! si))"
          let ?appc3 = "podSessionsAdd ?rp ?uid appc2"
          have eq: "bindLoop env key pend (drop k idle) k si errs tr appc
              = bindLoop env key pend (drop (Suc k) idle) (Suc k) (Suc si) errs
                  (tr @ [(k, si, True)]) ?appc3"
            using sl by (simp add: d \<open>findPod env (calls appc) (podName (podHeap appc ?rp)) = Some p\<close>
                True go Let_def b None)
          from sl have "Suc si \<le> length pend" by simp
          from IH [OF this, of errs "tr @ [(k, si, True)]" ?appc3]
          obtain si' errs' new appc' where
            r: "bindLoop env key pend (drop (Suc k) idle) (Suc k) (Suc si) errs
                  (tr @ [(k, si, True)]) ?appc3
                = Inr (si', errs', (tr @ [(k, si, True)]) @ new, appc')"
            and c: "attemptsChain (Suc k) (Suc si) new"
            and rest: "si' = Suc si + length (filter succeeded new)" "si' \<le> length pend"
              "length errs' = length errs + length (filter (\<lambda>t. \<not> succeeded t) new)"
              "offeredSessions (calls appc')
                 = offeredSessions (calls ?appc3)
                   @ map (\<lambda>t. UID (sessionHeap ?appc3 (pend ! fst (snd t)))) new"
              "\<forall>x. podSessions (podHeap ?appc3 x) \<subseteq> podSessions (podHeap appc' x)"
              "\<forall>x. UID (sessionHeap appc' x) = UID (sessionHeap ?appc3 x)"
              "list_all (attemptOk idle pend ?appc3 appc') new"
              "noRebind idle new"
            by blast
          have f3: "\<And>x. podSessions (podHeap appc x) \<subseteq> podSessions (podHeap ?appc3 x)"
            "\<And>x. UID (sessionHeap ?appc3 x) = UID (sessionHeap appc x)"
            "offeredSessions (calls ?appc3)
               = offeredSessions (calls appc) @ [UID (sessionHeap appc (pend ! si))]"
            "?uid \<in> podSessions (podHeap ?appc3 ?rp)"
            using f2 by (auto simp: podSessionsAdd_def)
          have ok: "list_all (attemptOk idle pend appc appc') new"
            using rest(7) attemptOk_earlier_start [OF _ f3(1) f3(2)]
            by (auto simp: list_all_iff)
          have "?uid \<in> podSessions (podHeap appc' ?rp)" using f3(4) rest(5) by blast
          then have hd: "attemptOk idle pend appc appc' (k, si, True)"
            using kl sl True f2(2) by (simp add: attemptOk_def)
          have mono: "\<forall>x. podSessions (podHeap appc x) \<subseteq> podSessions (podHeap appc' x)"
            using f3(1) rest(5) by blast
          have other: "\<forall>t' \<in> set new. idle ! fst t' \<noteq> ?rp"
            using rest(7) f3(4) by (auto simp: list_all_iff attemptOk_def)
          show ?thesis
            apply (rule exI [of _ si'], rule exI [of _ errs'],
                rule exI [of _ "(k, si, True) # new"], rule exI [of _ appc'])
            using r c rest(1-4,6,8) ok hd f3(2,3) mono other by (simp add: eq succeeded_def)
        qed
      qed
    qed
  qed
qed



text \<open>
  Where the pod manager finds every pod of the list and the pods are different pool pods
  with empty session sets, the loop skips no pod: it makes its attempts at the pods in
  the order of the list, one after the other, until every pending session is bound or the
  list is at its end.
\<close>

lemma bindLoop_no_skip:
  assumes "si \<le> length pend" and "k \<le> length idle"
    and "\<forall>log. \<forall>rp \<in> set (drop k idle). findPod env log (podName (podHeap appc rp)) \<noteq> None"
    and "\<forall>rp \<in> set (drop k idle). podSessions (podHeap appc rp) = {}"
    and "distinct (drop k idle)"
    and "bindLoop env key pend (drop k idle) k si errs tr appc = Inr (si', errs', tr', appc')"
  shows "\<exists>new. tr' = tr @ new \<and> map fst new = [k..<k + length new]
           \<and> (si' = length pend \<or> k + length new = length idle)"
  using assms
proof (induction "length idle - k" arbitrary: k si errs tr appc)
  case 0
  then have "drop k idle = []" and "k = length idle" by simp_all
  with "0.prems"(6) show ?case by simp
next
  case (Suc n)
  from Suc.hyps(2) have kl: "k < length idle" and n: "n = length idle - Suc k" by simp_all
  have d: "drop k idle = idle ! k # drop (Suc k) idle"
    using kl by (simp add: Cons_nth_drop_Suc)
  let ?rp = "idle ! k"
  let ?appc1 = "appc\<lparr>calls := calls appc @ [FindPod (podName (podHeap appc ?rp))]\<rparr>"
  note IH = Suc.hyps(1) [OF n]
  from Suc.prems(3) d obtain p where
    f: "findPod env (calls appc) (podName (podHeap appc ?rp)) = Some p"
    by (metis list.set_intros(1) not_Some_eq)
  from Suc.prems(4) d have e: "podSessions (podHeap appc ?rp) = {}"
    by (metis list.set_intros(1))
  from Suc.prems(5) d have nd: "?rp \<notin> set (drop (Suc k) idle)" "distinct (drop (Suc k) idle)"
    by simp_all
  show ?case
  proof (cases "si = length pend")
    case True
    have "bindLoop env key pend (drop k idle) k si errs tr appc = Inr (si, errs, tr, ?appc1)"
      by (simp add: d f e True Let_def)
    with Suc.prems(6) True show ?thesis by simp
  next
    case False
    with Suc.prems(1) have sl: "si < length pend" by simp
    obtain r appc2 where b: "bindSessionToPod env key p (pend ! si) ?appc1 = (r, appc2)"
      by (cases "bindSessionToPod env key p (pend ! si) ?appc1")
    then have a2: "appc2 = snd (bindSessionToPod env key p (pend ! si) ?appc1)" by simp
    have f2: "podHeap appc2 = podHeap appc" by (simp add: a2 bindSessionToPod_frame)
    define si2 where "si2 = (if r = None then Suc si else si)"
    define errs2 where "errs2 = (case r of None \<Rightarrow> errs | Some err \<Rightarrow> errs @ [err])"
    define appc3 where "appc3 =
      (case r of None \<Rightarrow> podSessionsAdd ?rp (UID (sessionHeap appc2 (pend ! si))) appc2
       | Some err \<Rightarrow> logError err appc2)"
    have eq: "bindLoop env key pend (drop k idle) k si errs tr appc
        = bindLoop env key pend (drop (Suc k) idle) (Suc k) si2 errs2
            (tr @ [(k, si, r = None)]) appc3"
      using sl by (cases r) (simp_all add: d f e False Let_def b si2_def errs2_def appc3_def)
    have names: "podName (podHeap appc3 x) = podName (podHeap appc x)" for x
      by (cases r) (simp_all add: appc3_def f2 logError_def podSessionsAdd_def)
    have sets: "x \<noteq> ?rp \<Longrightarrow> podSessions (podHeap appc3 x) = podSessions (podHeap appc x)" for x
      by (cases r) (simp_all add: appc3_def f2 logError_def podSessionsAdd_def)
    have p1: "si2 \<le> length pend" using sl by (simp add: si2_def)
    have p2: "Suc k \<le> length idle" using kl by simp
    have p3: "\<forall>log. \<forall>rp \<in> set (drop (Suc k) idle).
        findPod env log (podName (podHeap appc3 rp)) \<noteq> None"
      using Suc.prems(3) d by (simp add: names)
    have p4: "\<forall>rp \<in> set (drop (Suc k) idle). podSessions (podHeap appc3 rp) = {}"
      using Suc.prems(4) d nd(1) sets by (metis list.set_intros(2))
    from IH [OF p1 p2 p3 p4 nd(2) Suc.prems(6) [unfolded eq]]
    obtain new where
      "tr' = (tr @ [(k, si, r = None)]) @ new" "map fst new = [Suc k..<Suc k + length new]"
      "si' = length pend \<or> Suc k + length new = length idle"
      by blast
    note n = this
    have u: "[k..<k + Suc (length new)] = k # [Suc k..<Suc k + length new]"
      by (subst upt_rec) (simp del: upt_Suc)
    show ?thesis
    proof (intro exI [of _ "(k, si, r = None) # new"] conjI)
      show "tr' = tr @ (k, si, r = None) # new" using n(1) by simp
      show "map fst ((k, si, r = None) # new) = [k..<k + length ((k, si, r = None) # new)]"
        using n(2) u by (simp del: upt_Suc)
      show "si' = length pend \<or> k + length ((k, si, r = None) # new) = length idle"
        using n(3) by simp
    qed
  qed
qed

lemma picky_simps:
  "findPod picky log ''P1'' = Some P1" "findPod picky log ''P2'' = Some P2"
  "findPod picky log ''P9'' = None"
  "openSession picky log P1 s = Some ''P1 refuses''" "openSession picky log P2 s = None"
  by (simp_all add: picky_def P1_def P2_def)

lemma manager4_simps:
  "podHeap manager4 0 = \<lparr>podName = ''P1'', podSessions = {}\<rparr>"
  "podHeap manager4 (Suc 0) = \<lparr>podName = ''P2'', podSessions = {}\<rparr>"
  "calls manager4 = []" "sessionHeap manager4 a = S1"
  by (simp_all add: manager4_def manager0_def)

lemma manager5_simps:
  "podHeap manager5 2 = \<lparr>podName = ''P9'', podSessions = {}\<rparr>" "calls manager5 = []"
  by (simp_all add: manager5_def manager4_def manager0_def)

lemma fst_bindSessionToPod:
  "fst (bindSessionToPod env key pod a appc)
     = openSession env (calls appc) pod
         ((sessionHeap appc a)
          \<lparr>Status := (Status (sessionHeap appc a))
             \<lparr>SessionStatus := SessionStatusStarting,
              AccessEndPoints := bindEndPoints (AccessEndPoints (Status (sessionHeap appc a)))
                (AccessEndPoints (Status (sessionHeap appc a))) (Containers pod),
              PodReference := Some (podKey pod)\<rparr>\<rparr>)"
  by (simp add: bindSessionToPod_def Let_def split: option.splits)

text \<open>
  C6, as amended. The loop over the idle pods does this. At a pod that the pod manager
  does not find or whose session set is not empty it offers no session and goes on to the
  next pod with the same candidate. At a pod that is found with an empty session set it
  ends if every pending session is bound; else it tries the candidate: after a failure it
  records the error and goes on to the next pod with the same candidate, after a success
  it adds the uid of the session to the session set of the pod and goes on to the next pod
  with the next pending session as the candidate. At the end of the list it ends.

  So the bind phase of a sync returns, and its attempts \<open>tr'\<close> form a chain from the first
  pod and the first pending session. Every attempt is made with a pending session that
  exists, so no session is offered once all are bound, and at a pod whose session set was
  empty when the phase began; after a successful attempt the uid of the session is in the
  session set of the pod, and that pod is not tried again. \<open>si'\<close> counts the successes,
  the errors the failures, and the \<^verbatim>\<open>OpenSession\<close> calls of the phase offer the sessions
  of the attempts, in their order. Where every pod of the list is found, is a pool pod of
  its own and has an empty session set, no pod is skipped: the attempts are made at the
  pods in the order of the list until every pending session is bound or the list ends.
\<close>

theorem bindLoop_bind_phase:
  "bindLoop env key pending [] k si errs tr appc = Inr (si, errs, tr, appc)
   \<and> (let name = podName (podHeap appc rp);
          appc1 = appc\<lparr>calls := calls appc @ [FindPod name]\<rparr>;
          loop = bindLoop env key pending (rp # rps) k si errs tr appc
      in (findPod env (calls appc) name = None \<or> podSessions (podHeap appc rp) \<noteq> {} \<longrightarrow>
            loop = bindLoop env key pending rps (Suc k) si errs tr appc1)
       \<and> (\<forall>pod. findPod env (calls appc) name = Some pod
                  \<and> podSessions (podHeap appc rp) = {} \<longrightarrow>
             (si = length pending \<longrightarrow> loop = Inr (si, errs, tr, appc1))
           \<and> (si < length pending \<longrightarrow>
                (\<forall>e appc2.
                   bindSessionToPod env key pod (pending ! si) appc1 = (Some e, appc2) \<longrightarrow>
                   loop = bindLoop env key pending rps (Suc k) si (errs @ [e])
                            (tr @ [(k, si, False)]) (logError e appc2))
              \<and> (\<forall>appc2.
                   bindSessionToPod env key pod (pending ! si) appc1 = (None, appc2) \<longrightarrow>
                   loop = bindLoop env key pending rps (Suc k) (Suc si) errs
                            (tr @ [(k, si, True)])
                            (podSessionsAdd rp (UID (sessionHeap appc2 (pending ! si)))
                               appc2)))))
   \<and> (\<exists>si' errs' tr' appc'.
         bindLoop env key pending idle 0 0 [] [] start = Inr (si', errs', tr', appc')
       \<and> attemptsChain 0 0 tr'
       \<and> list_all (attemptOk idle pending start appc') tr'
       \<and> noRebind idle tr'
       \<and> si' = length (filter succeeded tr') \<and> si' \<le> length pending
       \<and> length errs' = length (filter (\<lambda>t. \<not> succeeded t) tr')
       \<and> offeredSessions (calls appc')
           = offeredSessions (calls start)
             @ map (\<lambda>t. UID (sessionHeap start (pending ! fst (snd t)))) tr'
       \<and> ((\<forall>log. \<forall>p \<in> set idle. findPod env log (podName (podHeap start p)) \<noteq> None)
            \<and> (\<forall>p \<in> set idle. podSessions (podHeap start p) = {})
            \<and> distinct idle \<longrightarrow>
            map fst tr' = [0..<length tr']
            \<and> (si' = length pending \<or> length tr' = length idle)))"
proof (intro conjI)
  show "bindLoop env key pending [] k si errs tr appc = Inr (si, errs, tr, appc)" by simp
  show "let name = podName (podHeap appc rp);
          appc1 = appc\<lparr>calls := calls appc @ [FindPod name]\<rparr>;
          loop = bindLoop env key pending (rp # rps) k si errs tr appc
      in (findPod env (calls appc) name = None \<or> podSessions (podHeap appc rp) \<noteq> {} \<longrightarrow>
            loop = bindLoop env key pending rps (Suc k) si errs tr appc1)
       \<and> (\<forall>pod. findPod env (calls appc) name = Some pod
                  \<and> podSessions (podHeap appc rp) = {} \<longrightarrow>
             (si = length pending \<longrightarrow> loop = Inr (si, errs, tr, appc1))
           \<and> (si < length pending \<longrightarrow>
                (\<forall>e appc2.
                   bindSessionToPod env key pod (pending ! si) appc1 = (Some e, appc2) \<longrightarrow>
                   loop = bindLoop env key pending rps (Suc k) si (errs @ [e])
                            (tr @ [(k, si, False)]) (logError e appc2))
              \<and> (\<forall>appc2.
                   bindSessionToPod env key pod (pending ! si) appc1 = (None, appc2) \<longrightarrow>
                   loop = bindLoop env key pending rps (Suc k) (Suc si) errs
                            (tr @ [(k, si, True)])
                            (podSessionsAdd rp (UID (sessionHeap appc2 (pending ! si)))
                               appc2))))"
    by (auto simp: Let_def split: option.splits)
  from bindLoop_run [of 0 pending env key 0 idle "[]" "[]" start]
  obtain si' errs' tr' appc' where
    r: "bindLoop env key pending idle 0 0 [] [] start = Inr (si', errs', tr', appc')"
    and p: "attemptsChain 0 0 tr'" "list_all (attemptOk idle pending start appc') tr'"
      "noRebind idle tr'" "si' = length (filter succeeded tr')" "si' \<le> length pending"
      "length errs' = length (filter (\<lambda>t. \<not> succeeded t) tr')"
      "offeredSessions (calls appc')
           = offeredSessions (calls start)
             @ map (\<lambda>t. UID (sessionHeap start (pending ! fst (snd t)))) tr'"
    by auto
  have l: "map fst tr' = [0..<length tr'] \<and> (si' = length pending \<or> length tr' = length idle)"
    if "(\<forall>log. \<forall>p \<in> set idle. findPod env log (podName (podHeap start p)) \<noteq> None)
            \<and> (\<forall>p \<in> set idle. podSessions (podHeap start p) = {})
            \<and> distinct idle"
    using bindLoop_no_skip [of 0 pending 0 idle env start key "[]" "[]" si' errs' tr' appc']
      that r by simp
  show "\<exists>si' errs' tr' appc'.
         bindLoop env key pending idle 0 0 [] [] start = Inr (si', errs', tr', appc')
       \<and> attemptsChain 0 0 tr'
       \<and> list_all (attemptOk idle pending start appc') tr'
       \<and> noRebind idle tr'
       \<and> si' = length (filter succeeded tr') \<and> si' \<le> length pending
       \<and> length errs' = length (filter (\<lambda>t. \<not> succeeded t) tr')
       \<and> offeredSessions (calls appc')
           = offeredSessions (calls start)
             @ map (\<lambda>t. UID (sessionHeap start (pending ! fst (snd t)))) tr'
       \<and> ((\<forall>log. \<forall>p \<in> set idle. findPod env log (podName (podHeap start p)) \<noteq> None)
            \<and> (\<forall>p \<in> set idle. podSessions (podHeap start p) = {})
            \<and> distinct idle \<longrightarrow>
            map fst tr' = [0..<length tr']
            \<and> (si' = length pending \<or> length tr' = length idle))"
    apply (rule exI [of _ si'], rule exI [of _ errs'], rule exI [of _ tr'],
        rule exI [of _ appc'])
    using r p l by blast
qed

text \<open>
  C6, as stated, at one pending session and three pods, of which the pod manager knows
  the first only. The session is bound at the first pod with the second call of the phase,
  so every pending session is bound. The phase does not stop there: it goes on to the two
  other pods and asks the pod manager for each.
\<close>

theorem bindLoop_looks_on:
  "\<not> isl stillLooking
   \<and> fst (projr stillLooking) = length [0 :: nat]
   \<and> offeredSessions (take 2 (calls (snd (snd (snd (projr stillLooking)))))) = [''u1'']
   \<and> drop 2 (calls (snd (snd (snd (projr stillLooking))))) = [FindPod ''P9'', FindPod ''P9'']"
  by (simp add: stillLooking_def bindSessionToPod_def bindEndPoints_def endPointOf_def
      podSessionsAdd_def logError_def offeredSessions_def picky_def manager5_def manager4_def
      manager0_def S1_def P1_def P2_def Let_def)

theorem bindLoop_bind_phase_witness:
  "bindLoop picky ''a/x'' [0] [2, 3] 0 0 [] [] manager5
     = bindLoop picky ''a/x'' [0] [3] 1 0 [] [] (manager5\<lparr>calls := [FindPod ''P9'']\<rparr>)
   \<and> bindLoop picky ''a/x'' [] [0, 1] 0 0 [] [] manager4
     = Inr (0, [], [], manager4\<lparr>calls := [FindPod ''P1'']\<rparr>)
   \<and> bindLoop picky ''a/x'' [0] [0, 1] 0 0 [] [] manager4
     = bindLoop picky ''a/x'' [0] [1] 1 0 [''P1 refuses''] [(0, 0, False)]
         (logError ''P1 refuses''
            (snd (bindSessionToPod picky ''a/x'' P1 0 (manager4\<lparr>calls := [FindPod ''P1'']\<rparr>))))
   \<and> bindLoop picky ''a/x'' [0] [1] 0 0 [] [] manager4
     = bindLoop picky ''a/x'' [0] [] 1 1 [] [(0, 0, True)]
         (podSessionsAdd 1 ''u1''
            (snd (bindSessionToPod picky ''a/x'' P2 0 (manager4\<lparr>calls := [FindPod ''P2'']\<rparr>))))
   \<and> (case bindLoop picky ''a/x'' [0] [0, 1] 0 0 [] [] manager4 of
        Inl panic \<Rightarrow> False
      | Inr (si, errs, tr, appc') \<Rightarrow>
          si = 1 \<and> errs = [''P1 refuses''] \<and> tr = [(0, 0, False), (1, 0, True)]
          \<and> attemptsChain 0 0 tr \<and> list_all (attemptOk [0, 1] [0] manager4 appc') tr
          \<and> map fst tr = [0..<length tr]
          \<and> offeredSessions (calls appc') = [''u1'', ''u1'']
          \<and> SessionStatus (Status (sessionHeap appc' 0)) = SessionStatusStarting
          \<and> PodReference (Status (sessionHeap appc' 0)) = Some ''P2''
          \<and> podSessions (podHeap appc' 0) = {}
          \<and> podSessions (podHeap appc' 1) = {''u1''})"
proof -
  have b1: "bindSessionToPod picky ''a/x'' P1 0 (manager4\<lparr>calls := [FindPod ''P1'']\<rparr>)
      = (Some ''P1 refuses'',
         snd (bindSessionToPod picky ''a/x'' P1 0 (manager4\<lparr>calls := [FindPod ''P1'']\<rparr>)))"
    by (simp add: prod_eq_iff fst_bindSessionToPod picky_simps)
  have b2: "bindSessionToPod picky ''a/x'' P2 0 (manager4\<lparr>calls := [FindPod ''P2'']\<rparr>)
      = (None,
         snd (bindSessionToPod picky ''a/x'' P2 0 (manager4\<lparr>calls := [FindPod ''P2'']\<rparr>)))"
    by (simp add: prod_eq_iff fst_bindSessionToPod picky_simps)
  have u: "UID (sessionHeap
              (snd (bindSessionToPod picky ''a/x'' P2 0 (manager4\<lparr>calls := [FindPod ''P2'']\<rparr>)))
              0) = ''u1''"
    by (simp add: bindSessionToPod_frame manager4_simps S1_def)
  from bindLoop_bind_phase [of picky "''a/x''" "[0]" 0 0 "[]" "[]" manager5 2 "[3]"]
  have w1: "bindLoop picky ''a/x'' [0] [2, 3] 0 0 [] [] manager5
     = bindLoop picky ''a/x'' [0] [3] 1 0 [] [] (manager5\<lparr>calls := [FindPod ''P9'']\<rparr>)"
    by (simp add: Let_def manager5_simps picky_simps del: bindLoop.simps)
  from bindLoop_bind_phase [of picky "''a/x''" "[]" 0 0 "[]" "[]" manager4 0 "[1]"]
  have w2: "bindLoop picky ''a/x'' [] [0, 1] 0 0 [] [] manager4
     = Inr (0, [], [], manager4\<lparr>calls := [FindPod ''P1'']\<rparr>)"
    by (simp add: Let_def manager4_simps picky_simps del: bindLoop.simps)
  from bindLoop_bind_phase [of picky "''a/x''" "[0]" 0 0 "[]" "[]" manager4 0 "[1]"] b1
  have w3: "bindLoop picky ''a/x'' [0] [0, 1] 0 0 [] [] manager4
     = bindLoop picky ''a/x'' [0] [1] 1 0 [''P1 refuses''] [(0, 0, False)]
         (logError ''P1 refuses''
            (snd (bindSessionToPod picky ''a/x'' P1 0 (manager4\<lparr>calls := [FindPod ''P1'']\<rparr>))))"
    by (simp add: Let_def manager4_simps picky_simps del: bindLoop.simps)
  from bindLoop_bind_phase [of picky "''a/x''" "[0]" 0 0 "[]" "[]" manager4 "Suc 0" "[]"] b2
  have w4: "bindLoop picky ''a/x'' [0] [1] 0 0 [] [] manager4
     = bindLoop picky ''a/x'' [0] [] 1 1 [] [(0, 0, True)]
         (podSessionsAdd 1 ''u1''
            (snd (bindSessionToPod picky ''a/x'' P2 0 (manager4\<lparr>calls := [FindPod ''P2'']\<rparr>))))"
    by (simp add: Let_def manager4_simps picky_simps u del: bindLoop.simps)
  have h: "(\<forall>log. \<forall>p \<in> set [0, 1]. findPod picky log (podName (podHeap manager4 p)) \<noteq> None)
      \<and> (\<forall>p \<in> set [0, 1]. podSessions (podHeap manager4 p) = {}) \<and> distinct [0 :: nat, 1]"
    by (simp add: manager4_simps picky_simps)
  from bindLoop_bind_phase [of picky "''a/x''" "[0]" 0 0 "[]" "[]" manager4 0 "[]" "[0, 1]"
      manager4] h
  obtain si errs tr appc' where
    r: "bindLoop picky ''a/x'' [0] [0, 1] 0 0 [] [] manager4 = Inr (si, errs, tr, appc')"
    and c: "attemptsChain 0 0 tr" "list_all (attemptOk [0, 1] [0] manager4 appc') tr"
      "map fst tr = [0..<length tr]"
    by blast
  have v: "si = 1 \<and> errs = [''P1 refuses''] \<and> tr = [(0, 0, False), (1, 0, True)]
        \<and> offeredSessions (calls appc') = [''u1'', ''u1'']
        \<and> SessionStatus (Status (sessionHeap appc' 0)) = SessionStatusStarting
        \<and> PodReference (Status (sessionHeap appc' 0)) = Some ''P2''
        \<and> podSessions (podHeap appc' 0) = {}
        \<and> podSessions (podHeap appc' 1) = {''u1''}"
    using r
    by (auto simp: bindSessionToPod_def bindEndPoints_def endPointOf_def offeredSessions_def
        podSessionsAdd_def logError_def picky_def manager4_def manager0_def S1_def P1_def P2_def
        Let_def)
  have w5: "(case bindLoop picky ''a/x'' [0] [0, 1] 0 0 [] [] manager4 of
        Inl panic \<Rightarrow> False
      | Inr (si, errs, tr, appc') \<Rightarrow>
          si = 1 \<and> errs = [''P1 refuses''] \<and> tr = [(0, 0, False), (1, 0, True)]
          \<and> attemptsChain 0 0 tr \<and> list_all (attemptOk [0, 1] [0] manager4 appc') tr
          \<and> map fst tr = [0..<length tr]
          \<and> offeredSessions (calls appc') = [''u1'', ''u1'']
          \<and> SessionStatus (Status (sessionHeap appc' 0)) = SessionStatusStarting
          \<and> PodReference (Status (sessionHeap appc' 0)) = Some ''P2''
          \<and> podSessions (podHeap appc' 0) = {}
          \<and> podSessions (podHeap appc' 1) = {''u1''})"
    unfolding r using c v by simp
  from w1 w2 w3 w4 w5 show ?thesis by (intro conjI)
qed

text \<open>From the start of the sync the loop does not panic, so the sync returns.\<close>

lemma syncApplicationSessions_returns:
  "\<exists>r. syncApplicationSessions env clock idle key appc = Inr r"
proof (cases "getApplicationPool appc key")
  case None
  then show ?thesis by (simp add: syncApplicationSessions_def)
next
  case (Some pool)
  let ?g = "groupSessionsByState clock (sessionHeap appc) pool"
  from bindLoop_run [of 0 "pendingSessions ?g" env key 0 idle "[]" "[]" appc]
  obtain si errs tr appc' where
    "bindLoop env key (pendingSessions ?g) idle 0 0 [] [] appc = Inr (si, errs, tr, appc')"
    by auto
  then show ?thesis
    by (simp add: syncApplicationSessions_def Some Let_def split_def)
qed

section \<open>The general form of the two defects\<close>

text \<open>
  A successful \<^verbatim>\<open>bindSessionToPod\<close> sets the status to Starting and the pod reference to
  the name of the pod, and it adds to the prior endpoints the endpoint of the last declared
  port of the pod, if the pod declares any.
\<close>

lemma bindSessionToPod_success:
  assumes "fst (bindSessionToPod env key pod a appc) = None"
  shows "Status (sessionHeap (snd (bindSessionToPod env key pod a appc)) a) =
     (Status (sessionHeap appc a))
       \<lparr>SessionStatus := SessionStatusStarting,
        AccessEndPoints :=
          (if concat (map Ports (Containers pod)) = []
           then AccessEndPoints (Status (sessionHeap appc a))
           else AccessEndPoints (Status (sessionHeap appc a))
                @ [endPointOf (last (concat (map Ports (Containers pod))))]),
        PodReference := Some (podKey pod)\<rparr>"
proof -
  let ?s = "sessionHeap appc a"
  let ?eps = "bindEndPoints (AccessEndPoints (Status ?s)) (AccessEndPoints (Status ?s))
                (Containers pod)"
  have "Status (sessionHeap (snd (bindSessionToPod env key pod a appc)) a) =
      (Status ?s)\<lparr>SessionStatus := SessionStatusStarting, AccessEndPoints := ?eps,
                   PodReference := Some (podKey pod)\<rparr>"
    using assms by (simp add: bindSessionToPod_def Let_def split: option.splits)
  then show ?thesis by (simp only: bindEndPoints_last)
qed

lemma sessionHeap_closeApplicationSession:
  "sessionHeap (snd (closeApplicationSession env a appc)) b = sessionHeap appc b
   \<or> (SessionIsOpen (sessionHeap appc b)
       \<and> sessionHeap (snd (closeApplicationSession env a appc)) b
           = (sessionHeap appc b)\<lparr>Status :=
                (Status (sessionHeap appc b))\<lparr>SessionStatus := SessionStatusClosing\<rparr>\<rparr>)"
  by (simp add: closeApplicationSession_def changeSessionStatus_def Let_def
      split: option.splits)

lemma closeApplicationSession_keeps [simp]:
  "UID (sessionHeap (snd (closeApplicationSession env a appc)) b) = UID (sessionHeap appc b)"
  "DeletionTimestamp (sessionHeap (snd (closeApplicationSession env a appc)) b)
     = DeletionTimestamp (sessionHeap appc b)"
  "SessionInTerminalState (sessionHeap (snd (closeApplicationSession env a appc)) b)
     = SessionInTerminalState (sessionHeap appc b)"
  using sessionHeap_closeApplicationSession [of env a appc b]
  by (auto simp: SessionInTerminalState_def SessionIsOpen_def)

lemma poolSessions_closeApplicationSession [simp]:
  "poolSessions (snd (closeApplicationSession env a appc)) = poolSessions appc"
  by (rule poolSessions_same_pools) simp

text \<open>
  A session-add event whose application name is not a valid key enqueues the empty key,
  and a session that is not in a terminal state is in the pool of the empty key afterwards.
\<close>

lemma onApplicationSessionAddEvent_invalid_key:
  assumes "snd (getSessionApplicationKey (sessionHeap appc a)) \<noteq> None"
    and "DeletionTimestamp (sessionHeap appc a) = None"
  shows "queue (onApplicationSessionAddEvent env a appc) = queue appc @ ['''']"
    and "\<not> SessionInTerminalState (sessionHeap appc a) \<Longrightarrow>
         map_of (poolSessions (onApplicationSessionAddEvent env a appc) [])
           (UID (sessionHeap appc a)) = Some a"
proof -
  obtain e where k: "getSessionApplicationKey (sessionHeap appc a) = ([], Some e)"
    using assms(1) getSessionApplicationKey_invalid [of "sessionHeap appc a"]
    by (cases "getSessionApplicationKey (sessionHeap appc a)") auto
  let ?appc' = "logError e appc"
  let ?appc1 = "if SessionIsOpen (sessionHeap ?appc' a)
                then snd (closeApplicationSession env a ?appc') else ?appc'"
  have r: "onApplicationSessionAddEvent env a appc
      = enqueueApplication [] (updateSessionPool env [] a False ?appc1)"
    using assms(2) by (simp add: onApplicationSessionAddEvent_def k Let_def)
  have f: "queue ?appc1 = queue appc" "UID (sessionHeap ?appc1 a) = UID (sessionHeap appc a)"
    "SessionInTerminalState (sessionHeap ?appc1 a) = SessionInTerminalState (sessionHeap appc a)"
    by (simp_all add: logError_def)
  show "queue (onApplicationSessionAddEvent env a appc) = queue appc @ ['''']"
    by (simp add: r enqueueApplication_def f)
  show "map_of (poolSessions (onApplicationSessionAddEvent env a appc) [])
           (UID (sessionHeap appc a)) = Some a"
    if "\<not> SessionInTerminalState (sessionHeap appc a)"
    using that
    by (simp add: r enqueueApplication_def poolSessions_updateSessionPool f update_conv')
qed

end
